theory Spec2Isabelle
  imports Main
begin

text \<open>
  The authentication core of the task manager back end: the token helpers and the
  \<open>auth\<close> and \<open>checkRole\<close> middleware (middleware/auth.js), and the handlers of
  routes/auth.js for register, login, refresh, the two updates, delete and create-admin,
  with the bootstrap of the default admin in \<open>connectDB\<close>. A handler is a function of
  the environment, the user collection, the clock (in seconds) and the request; one that
  writes returns the new collection next to its response.
\<close>

section \<open>Request values\<close>

text \<open>
  The JSON values a request body carries in the fields the handlers read: strings and
  booleans. A field that is absent from the body is \<open>None\<close> (JavaScript's
  \<open>undefined\<close>) when it is looked up.
\<close>

datatype jsval = JStr string | JBool bool

text \<open>JavaScript's \<open>!v\<close> on a body field: \<open>undefined\<close>, the empty string and \<open>false\<close> are falsy.\<close>

fun js_not :: "jsval option \<Rightarrow> bool" where
  "js_not None = True"
| "js_not (Some (JStr s)) = (s = [])"
| "js_not (Some (JBool b)) = (\<not> b)"

text \<open>JavaScript's \<open>String(v)\<close>, which \<open>RegExp.test\<close> and a String schema path apply to a value.\<close>

fun toString :: "jsval \<Rightarrow> string" where
  "toString (JStr s) = s"
| "toString (JBool b) = (if b then ''true'' else ''false'')"

section \<open>Tokens (the jsonwebtoken library, symbolically)\<close>

text \<open>
  The payload the routes sign is \<open>{ userId }\<close>; the library adds \<open>iat\<close> and, for
  \<open>expiresIn\<close>, \<open>exp\<close>, both in seconds. A token is either a string that the library
  refuses before it looks at a signature, or a payload together with the secret its
  signature was made with: the signature verifies under exactly that secret.
\<close>

record payload =
  userId :: nat
  iat :: nat
  exp :: nat

text \<open>
  Why a string is refused before its signature is looked at: it is not three parts
  separated by dots; its parts do not decode; it carries no signature; its header names
  an algorithm that a secret does not verify.
\<close>

datatype malformation = NotThreeParts | Undecodable | Unsigned | WrongAlgorithm

fun malformation_message :: "malformation \<Rightarrow> string" where
  "malformation_message NotThreeParts = ''jwt malformed''"
| "malformation_message Undecodable = ''invalid token''"
| "malformation_message Unsigned = ''jwt signature is required''"
| "malformation_message WrongAlgorithm = ''invalid algorithm''"

datatype jwt = Malformed malformation | Signed payload string

definition jwt_sign :: "nat \<Rightarrow> string \<Rightarrow> nat \<Rightarrow> nat \<Rightarrow> jwt" where
  "jwt_sign subject secret expiresIn now =
     Signed \<lparr>userId = subject, iat = now, exp = now + expiresIn\<rparr> secret"

text \<open>
  \<open>jwt.verify\<close> throws \<open>JsonWebTokenError\<close> (with the message of the malformation, or
  \<open>invalid signature\<close>) or \<open>TokenExpiredError\<close> (\<open>jwt expired\<close>, once the clock has
  reached \<open>exp\<close>); the signature is checked before the expiry. The thrown error's
  message is the \<open>Inl\<close> value.
\<close>

definition jwt_verify :: "jwt \<Rightarrow> string \<Rightarrow> nat \<Rightarrow> string + payload" where
  "jwt_verify token secret now =
     (case token of
        Malformed why \<Rightarrow> Inl (malformation_message why)
      | Signed p k \<Rightarrow>
          if k \<noteq> secret then Inl ''invalid signature''
          else if exp p \<le> now then Inl ''jwt expired''
          else Inr p)"

text \<open>\<open>process.env\<close>: the two signing secrets.\<close>

record env =
  JWT_SECRET :: string
  JWT_REFRESH_SECRET :: string

text \<open>\<open>generateToken\<close> of routes/auth.js; \<open>'7d'\<close> and \<open>'1h'\<close> in seconds.\<close>

definition generateToken :: "env \<Rightarrow> nat \<Rightarrow> nat \<Rightarrow> string \<Rightarrow> jwt" where
  "generateToken e now subject type =
     (let secret = (if type = ''refresh'' then JWT_REFRESH_SECRET e else JWT_SECRET e);
          expiresIn = (if type = ''refresh'' then 7 * 24 * 60 * 60 else 60 * 60)
      in jwt_sign subject secret expiresIn now)"

section \<open>Identities and the user collection\<close>

text \<open>
  The \<open>password\<close> path of a document holds the plaintext a handler assigned until
  the document is saved, and the digest afterwards.
\<close>

datatype pw = Plain string | Hashed string

record user =
  uid :: nat
  name :: string
  email :: string
  password :: pw
  role :: string
  active :: bool
  passwordChangedAt :: "nat option"

type_synonym store = "user list"

text \<open>
  Modelled from the spec: models/User.js is not among the sources. The Password Hasher's
  \<open>verify(plaintext, hash)\<close> holds exactly for the plaintext the hash was derived from.
\<close>

definition comparePassword :: "user \<Rightarrow> string \<Rightarrow> bool" where
  "comparePassword u candidate = (password u = Hashed candidate)"

text \<open>
  Modelled from the spec: models/User.js is not among the sources. The check of the Auth
  Middleware's step 4: \<open>passwordChangedAt\<close> is set and is later than the token's
  \<open>issuedAt\<close>.
\<close>

definition changedPasswordAfter :: "user \<Rightarrow> nat \<Rightarrow> bool" where
  "changedPasswordAfter u JWTTimestamp =
     (case passwordChangedAt u of None \<Rightarrow> False | Some changed \<Rightarrow> JWTTimestamp < changed)"

text \<open>The queries the handlers run: the first document that matches.\<close>

definition findById :: "store \<Rightarrow> nat \<Rightarrow> user option" where
  "findById st i = find (\<lambda>u. uid u = i) st"

definition findOne_email :: "store \<Rightarrow> string \<Rightarrow> user option" where
  "findOne_email st e = find (\<lambda>u. email u = e) st"

definition findOne_role :: "store \<Rightarrow> string \<Rightarrow> user option" where
  "findOne_role st r = find (\<lambda>u. role u = r) st"

definition findOne_id_active :: "store \<Rightarrow> nat \<Rightarrow> user option" where
  "findOne_id_active st i = find (\<lambda>u. uid u = i \<and> active u) st"

section \<open>Responses\<close>

record publicUser =
  pu_id :: nat
  pu_name :: string
  pu_email :: string
  pu_role :: string

datatype resBody =
    TextBody string
  | ErrorJson string
  | StatusMessageJson string string
  | MessageJson string
  | MessageUserJson string publicUser
  | UserJson publicUser
  | UserActiveJson publicUser bool
  | UserTokenJson publicUser jwt
  | AccessTokenJson jwt

record response =
  status :: nat
  json :: resBody
  refreshTokenCookie :: "jwt option"

definition respond :: "nat \<Rightarrow> resBody \<Rightarrow> response" where
  "respond code b = \<lparr>status = code, json = b, refreshTokenCookie = None\<rparr>"

definition publicOf :: "user \<Rightarrow> publicUser" where
  "publicOf u = \<lparr>pu_id = uid u, pu_name = name u, pu_email = email u, pu_role = role u\<rparr>"

section \<open>middleware/auth.js\<close>

text \<open>
  The \<open>Authorization\<close> header: a value that does not start with \<open>Bearer \<close>, or
  \<open>Bearer \<close> followed by nothing (\<open>Bearer None\<close>) or by a token. An absent header is
  \<open>None\<close>.
\<close>

datatype header = NotBearer string | Bearer "jwt option"

text \<open>The \<open>try\<close> block of \<open>auth\<close>: \<open>Inl\<close> is the message of the error thrown.\<close>

definition auth_try :: "env \<Rightarrow> store \<Rightarrow> nat \<Rightarrow> header option \<Rightarrow> string + (user \<times> jwt)" where
  "auth_try e st now authHeader =
     (case authHeader of
        None \<Rightarrow> Inl ''Invalid authorization header format''
      | Some (NotBearer s) \<Rightarrow> Inl ''Invalid authorization header format''
      | Some (Bearer None) \<Rightarrow> Inl ''No token provided''
      | Some (Bearer (Some token)) \<Rightarrow>
          (case jwt_verify token (JWT_SECRET e) now of
             Inl m \<Rightarrow> Inl m
           | Inr decoded \<Rightarrow>
               (case findOne_id_active st (userId decoded) of
                  None \<Rightarrow> Inl ''User not found or deactivated''
                | Some u \<Rightarrow>
                    if passwordChangedAt u \<noteq> None \<and> changedPasswordAfter u (iat decoded)
                    then Inl ''User recently changed password. Please log in again''
                    else Inr (u, token))))"

text \<open>\<open>auth\<close> with its \<open>catch\<close>: every failure is a 401 carrying the error's message.\<close>

definition auth :: "env \<Rightarrow> store \<Rightarrow> nat \<Rightarrow> header option \<Rightarrow> response + (user \<times> jwt)" where
  "auth e st now authHeader =
     (case auth_try e st now authHeader of
        Inl m \<Rightarrow>
          Inl (respond 401 (StatusMessageJson ''error'' (if m = [] then ''Please authenticate'' else m)))
      | Inr ok \<Rightarrow> Inr ok)"

text \<open>\<open>checkRole(roles)\<close>: \<open>None\<close> is \<open>next()\<close>.\<close>

definition checkRole :: "string list \<Rightarrow> user option \<Rightarrow> response option" where
  "checkRole roles req_user =
     (case req_user of
        None \<Rightarrow> Some (respond 401 (StatusMessageJson ''error'' ''Please authenticate''))
      | Some u \<Rightarrow>
          if role u \<notin> set roles
          then Some (respond 403 (StatusMessageJson ''error''
                 ''You do not have permission to perform this action''))
          else None)"

section \<open>routes/auth.js: login and refresh\<close>

text \<open>
  What a handler reads of a request. \<open>cookies\<close> is \<open>req.cookies\<close>: \<open>None\<close> when
  no cookie parser has run (the property is \<open>undefined\<close>), otherwise what a parser
  made of the \<open>refreshToken\<close> cookie the client sent, \<open>Some None\<close> when that cookie is
  absent or empty. \<open>body\<close> is the parsed JSON object, its keys in order.
\<close>

record request =
  authorization :: "header option"
  cookies :: "jwt option option"
  body :: "(string \<times> jsval) list"
  params_userId :: nat

text \<open>
  The handler of \<open>POST /login\<close>. The store is only read. A credential is passed on as
  the string the query and the hasher see.
\<close>

definition login_handler :: "env \<Rightarrow> store \<Rightarrow> nat \<Rightarrow> request \<Rightarrow> response" where
  "login_handler e st now req =
     (if js_not (map_of (body req) ''email'') \<or> js_not (map_of (body req) ''password'')
      then respond 400 (ErrorJson ''Email and password are required'')
      else
        (case (map_of (body req) ''email'', map_of (body req) ''password'') of
           (Some ev, Some pv) \<Rightarrow>
             (case findOne_email st (toString ev) of
                None \<Rightarrow> respond 401 (ErrorJson ''Invalid credentials'')
              | Some u \<Rightarrow>
                  if \<not> active u then respond 401 (ErrorJson ''Account is deactivated'')
                  else if \<not> comparePassword u (toString pv)
                  then respond 401 (ErrorJson ''Invalid credentials'')
                  else
                    \<lparr>status = 200,
                     json = UserTokenJson (publicOf u) (generateToken e now (uid u) ''access''),
                     refreshTokenCookie = Some (generateToken e now (uid u) ''refresh'')\<rparr>)
         | _ \<Rightarrow> respond 400 (ErrorJson ''Email and password are required'')))"

text \<open>
  \<open>loginLimiter\<close> runs first; whether the caller's address is over its limit of 5
  attempts in 15 minutes is the limiter's state, an input here.
\<close>

definition login :: "bool \<Rightarrow> env \<Rightarrow> store \<Rightarrow> nat \<Rightarrow> request \<Rightarrow> response" where
  "login limited e st now req =
     (if limited
      then respond 429 (TextBody
             ''Too many login attempts from this IP, please try again after 15 minutes'')
      else login_handler e st now req)"

text \<open>
  The handler of \<open>POST /refresh-token\<close>. Reading \<open>req.cookies.refreshToken\<close> when
  \<open>req.cookies\<close> is \<open>undefined\<close> throws inside the \<open>try\<close>, and the \<open>catch\<close> answers
  every error alike.
\<close>

definition refresh_token :: "env \<Rightarrow> store \<Rightarrow> nat \<Rightarrow> request \<Rightarrow> response" where
  "refresh_token e st now req =
     (case cookies req of
        None \<Rightarrow> respond 401 (ErrorJson ''Invalid refresh token'')
      | Some None \<Rightarrow> respond 401 (ErrorJson ''No refresh token provided'')
      | Some (Some refreshToken) \<Rightarrow>
          (case jwt_verify refreshToken (JWT_REFRESH_SECRET e) now of
             Inl m \<Rightarrow> respond 401 (ErrorJson ''Invalid refresh token'')
           | Inr decoded \<Rightarrow>
               (case findById st (userId decoded) of
                  None \<Rightarrow> respond 401 (ErrorJson ''Invalid refresh token'')
                | Some u \<Rightarrow>
                    if \<not> active u then respond 401 (ErrorJson ''Invalid refresh token'')
                    else respond 200 (AccessTokenJson (generateToken e now (uid u) ''access'')))))"

section \<open>server.js: what reaches the handlers\<close>



section \<open>Saving a document\<close>

text \<open>
  Modelled from the spec: models/User.js is not among the sources. A new identity is
  \<open>active\<close>, has no \<open>passwordChangedAt\<close>, and gets an identifier no stored document has.
\<close>

definition newObjectId :: "store \<Rightarrow> nat" where
  "newObjectId st = Suc (fold max (map uid st) 0)"

definition new_User :: "store \<Rightarrow> string \<Rightarrow> string \<Rightarrow> string \<Rightarrow> string \<Rightarrow> user" where
  "new_User st n e p r =
     \<lparr>uid = newObjectId st, name = n, email = e, password = Plain p, role = r,
      active = True, passwordChangedAt = None\<rparr>"

text \<open>
  Modelled from the spec: models/User.js is not among the sources. The hook that runs
  before a save: a plaintext that was assigned to \<open>password\<close> is replaced by its digest,
  and \<open>passwordChangedAt\<close> is set whenever the digest of a stored identity changes
  (it stays undefined at creation).
\<close>

definition pre_save :: "nat \<Rightarrow> bool \<Rightarrow> user \<Rightarrow> user" where
  "pre_save now isNew u =
     (case password u of
        Plain p \<Rightarrow>
          if isNew then u\<lparr>password := Hashed p\<rparr>
          else u\<lparr>password := Hashed p, passwordChangedAt := Some now\<rparr>
      | Hashed h \<Rightarrow> u)"

text \<open>
  Modelled from the spec: models/User.js is not among the sources. \<open>save\<close> inserts a
  document whose identifier is not stored and replaces the stored one otherwise; the
  store refuses an email that another identity holds (\<open>Inl\<close> is the error's message).
  The result is the document as saved and the new store. The spec describes no other
  validation of a document, and none is modelled.
\<close>

definition save :: "nat \<Rightarrow> store \<Rightarrow> user \<Rightarrow> string + (user \<times> store)" where
  "save now st u =
     (case findById st (uid u) of
        None \<Rightarrow>
          if findOne_email st (email u) \<noteq> None then Inl ''E11000 duplicate key error''
          else Inr (pre_save now True u, st @ [pre_save now True u])
      | Some old \<Rightarrow>
          if email u \<noteq> email old \<and> findOne_email st (email u) \<noteq> None
          then Inl ''E11000 duplicate key error''
          else Inr (pre_save now False u,
                    map (\<lambda>v. if uid v = uid u then pre_save now False u else v) st))"

section \<open>routes/auth.js: register\<close>

text \<open>
  \<open>passwordRegex\<close> has four lookaheads at the start of the string, one per class
  (a lowercase letter, an uppercase letter, a digit, one of the symbols @ $ ! % * ? &),
  and then asks for eight or more characters of these classes up to the end of the
  string.
\<close>

definition lower_c :: "char \<Rightarrow> bool" where
  "lower_c c = (c \<in> set ''abcdefghijklmnopqrstuvwxyz'')"

definition upper_c :: "char \<Rightarrow> bool" where
  "upper_c c = (c \<in> set ''ABCDEFGHIJKLMNOPQRSTUVWXYZ'')"

definition digit_c :: "char \<Rightarrow> bool" where
  "digit_c c = (c \<in> set ''0123456789'')"

definition special_c :: "char \<Rightarrow> bool" where
  "special_c c = (c \<in> set ''@$!%*?&'')"

definition class_c :: "char \<Rightarrow> bool" where
  "class_c c = (lower_c c \<or> upper_c c \<or> digit_c c \<or> special_c c)"

text \<open>
  \<open>.\<close> matches any character but a line terminator. Strings are byte strings here:
  the line and paragraph separators beyond ASCII are no single characters, and their
  bytes are outside the classes.
\<close>

definition dot_c :: "char \<Rightarrow> bool" where
  "dot_c c = (c \<noteq> CHR 0x0A \<and> c \<noteq> CHR 0x0D)"

text \<open>
  A lookahead at the start of the string: some character of the class stands after
  characters that \<open>.\<close> matches.
\<close>

definition lookahead :: "(char \<Rightarrow> bool) \<Rightarrow> string \<Rightarrow> bool" where
  "lookahead cls s = list_ex cls (takeWhile dot_c s)"

definition passwordRegex :: "string \<Rightarrow> bool" where
  "passwordRegex s =
     (lookahead lower_c s \<and> lookahead upper_c s \<and> lookahead digit_c s \<and> lookahead special_c s
      \<and> list_all class_c s \<and> 8 \<le> length s)"

text \<open>\<open>role || 'user'\<close>.\<close>

definition role_or_user :: "jsval option \<Rightarrow> string" where
  "role_or_user r = (case r of None \<Rightarrow> ''user'' | Some v \<Rightarrow> if js_not (Some v) then ''user'' else toString v)"

definition register_handler :: "nat \<Rightarrow> store \<Rightarrow> request \<Rightarrow> response \<times> store" where
  "register_handler now st req =
     (if js_not (map_of (body req) ''name'') \<or> js_not (map_of (body req) ''email'')
         \<or> js_not (map_of (body req) ''password'')
      then (respond 400 (ErrorJson ''All fields are required''), st)
      else
        (case (map_of (body req) ''name'', map_of (body req) ''email'', map_of (body req) ''password'') of
           (Some nv, Some ev, Some pv) \<Rightarrow>
             if \<not> passwordRegex (toString pv)
             then (respond 400 (ErrorJson
                    ''Password must contain at least 8 characters, one uppercase letter, one lowercase letter, one number and one special character''),
                   st)
             else
               (case findOne_email st (toString ev) of
                  Some existingUser \<Rightarrow> (respond 400 (ErrorJson ''Email already registered''), st)
                | None \<Rightarrow>
                    (case save now st (new_User st (toString nv) (toString ev) (toString pv)
                                         (role_or_user (map_of (body req) ''role''))) of
                       Inl m \<Rightarrow> (respond 400 (ErrorJson m), st)
                     | Inr (u, st') \<Rightarrow>
                         (respond 201 (MessageUserJson ''User created successfully'' (publicOf u)), st')))
         | _ \<Rightarrow> (respond 400 (ErrorJson ''All fields are required''), st)))"

text \<open>The route: \<open>auth\<close>, then \<open>checkRole(['admin'])\<close>, then the handler.\<close>

definition register :: "env \<Rightarrow> store \<Rightarrow> nat \<Rightarrow> request \<Rightarrow> response \<times> store" where
  "register e st now req =
     (case auth e st now (authorization req) of
        Inl r \<Rightarrow> (r, st)
      | Inr (u, token) \<Rightarrow>
          (case checkRole [''admin''] (Some u) of
             Some r \<Rightarrow> (r, st)
           | None \<Rightarrow> register_handler now st req))"

section \<open>routes/auth.js: updates and deactivation\<close>

text \<open>
  How a Boolean schema path reads an assigned value; \<open>None\<close> is a cast error, which
  \<open>save\<close> reports.
\<close>

fun castBoolean :: "jsval \<Rightarrow> bool option" where
  "castBoolean (JBool b) = Some b"
| "castBoolean (JStr s) =
     (if s \<in> set [''true'', ''1'', ''yes''] then Some True
      else if s \<in> set [''false'', ''0'', ''no''] then Some False
      else None)"

text \<open>\<open>user[update] = req.body[update]\<close> for one key.\<close>

definition set_path :: "user \<Rightarrow> string \<Rightarrow> jsval \<Rightarrow> string + user" where
  "set_path u k v =
     (if k = ''name'' then Inr (u\<lparr>name := toString v\<rparr>)
      else if k = ''email'' then Inr (u\<lparr>email := toString v\<rparr>)
      else if k = ''password'' then Inr (u\<lparr>password := Plain (toString v)\<rparr>)
      else if k = ''role'' then Inr (u\<lparr>role := toString v\<rparr>)
      else if k = ''active'' then
        (case castBoolean v of
           None \<Rightarrow> Inl ''User validation failed: active: Cast to Boolean failed''
         | Some b \<Rightarrow> Inr (u\<lparr>active := b\<rparr>))
      else Inr u)"

text \<open>\<open>updates.forEach\<close>, over the keys of the body in order.\<close>

fun forEach_update :: "user \<Rightarrow> (string \<times> jsval) list \<Rightarrow> string + user" where
  "forEach_update u [] = Inr u"
| "forEach_update u ((k, v) # rest) =
     (case set_path u k v of Inl m \<Rightarrow> Inl m | Inr u' \<Rightarrow> forEach_update u' rest)"

definition isValidOperation :: "string list \<Rightarrow> string list \<Rightarrow> bool" where
  "isValidOperation allowedUpdates updates = list_all (\<lambda>update. update \<in> set allowedUpdates) updates"

definition patch_me_handler :: "nat \<Rightarrow> store \<Rightarrow> user \<Rightarrow> request \<Rightarrow> response \<times> store" where
  "patch_me_handler now st req_user req =
     (if \<not> isValidOperation [''name'', ''email'', ''password''] (map fst (body req))
      then (respond 400 (ErrorJson ''Invalid updates''), st)
      else
        (case findById st (uid req_user) of
           None \<Rightarrow> (respond 404 (ErrorJson ''User not found''), st)
         | Some u \<Rightarrow>
             (case forEach_update u (body req) of
                Inl m \<Rightarrow> (respond 400 (ErrorJson m), st)
              | Inr u' \<Rightarrow>
                  (case save now st u' of
                     Inl m \<Rightarrow> (respond 400 (ErrorJson m), st)
                   | Inr (saved, st') \<Rightarrow> (respond 200 (UserJson (publicOf saved)), st')))))"

definition patch_me :: "env \<Rightarrow> store \<Rightarrow> nat \<Rightarrow> request \<Rightarrow> response \<times> store" where
  "patch_me e st now req =
     (case auth e st now (authorization req) of
        Inl r \<Rightarrow> (r, st)
      | Inr (u, token) \<Rightarrow> patch_me_handler now st u req)"

definition patch_user_handler :: "nat \<Rightarrow> store \<Rightarrow> request \<Rightarrow> response \<times> store" where
  "patch_user_handler now st req =
     (if \<not> isValidOperation [''name'', ''email'', ''password'', ''role'', ''active''] (map fst (body req))
      then (respond 400 (ErrorJson ''Invalid updates''), st)
      else
        (case findById st (params_userId req) of
           None \<Rightarrow> (respond 404 (ErrorJson ''User not found''), st)
         | Some u \<Rightarrow>
             (case forEach_update u (body req) of
                Inl m \<Rightarrow> (respond 400 (ErrorJson m), st)
              | Inr u' \<Rightarrow>
                  (case save now st u' of
                     Inl m \<Rightarrow> (respond 400 (ErrorJson m), st)
                   | Inr (saved, st') \<Rightarrow>
                       (respond 200 (UserActiveJson (publicOf saved) (active saved)), st')))))"

definition patch_user :: "env \<Rightarrow> store \<Rightarrow> nat \<Rightarrow> request \<Rightarrow> response \<times> store" where
  "patch_user e st now req =
     (case auth e st now (authorization req) of
        Inl r \<Rightarrow> (r, st)
      | Inr (u, token) \<Rightarrow>
          (case checkRole [''admin''] (Some u) of
             Some r \<Rightarrow> (r, st)
           | None \<Rightarrow> patch_user_handler now st req))"

text \<open>\<open>DELETE /users/:userId\<close> of routes/auth.js: the soft delete.\<close>

definition delete_user_handler :: "nat \<Rightarrow> store \<Rightarrow> request \<Rightarrow> response \<times> store" where
  "delete_user_handler now st req =
     (case findById st (params_userId req) of
        None \<Rightarrow> (respond 404 (ErrorJson ''User not found''), st)
      | Some u \<Rightarrow>
          (case save now st (u\<lparr>active := False\<rparr>) of
             Inl m \<Rightarrow> (respond 400 (ErrorJson m), st)
           | Inr (saved, st') \<Rightarrow> (respond 200 (MessageJson ''User deactivated successfully''), st')))"

definition delete_user :: "env \<Rightarrow> store \<Rightarrow> nat \<Rightarrow> request \<Rightarrow> response \<times> store" where
  "delete_user e st now req =
     (case auth e st now (authorization req) of
        Inl r \<Rightarrow> (r, st)
      | Inr (u, token) \<Rightarrow>
          (case checkRole [''admin''] (Some u) of
             Some r \<Rightarrow> (r, st)
           | None \<Rightarrow> delete_user_handler now st req))"

text \<open>
  The other copy of the auth routes among the sources (\<^verbatim>\<open>src/unnamed/part_002\<close>) answers the
  same path with \<open>User.findByIdAndDelete\<close>: the first document with the identifier is
  removed from the collection and returned.
\<close>

definition findByIdAndDelete :: "store \<Rightarrow> nat \<Rightarrow> user option \<times> store" where
  "findByIdAndDelete st i =
     (case findById st i of None \<Rightarrow> (None, st) | Some u \<Rightarrow> (Some u, remove1 u st))"

definition delete_user_handler_part_002 :: "store \<Rightarrow> request \<Rightarrow> response \<times> store" where
  "delete_user_handler_part_002 st req =
     (case findByIdAndDelete st (params_userId req) of
        (None, st') \<Rightarrow> (respond 404 (ErrorJson ''User not found''), st')
      | (Some u, st') \<Rightarrow> (respond 200 (MessageJson ''User deleted successfully''), st'))"

definition delete_user_part_002 :: "env \<Rightarrow> store \<Rightarrow> nat \<Rightarrow> request \<Rightarrow> response \<times> store" where
  "delete_user_part_002 e st now req =
     (case auth e st now (authorization req) of
        Inl r \<Rightarrow> (r, st)
      | Inr (u, token) \<Rightarrow>
          (case checkRole [''admin''] (Some u) of
             Some r \<Rightarrow> (r, st)
           | None \<Rightarrow> delete_user_handler_part_002 st req))"

section \<open>The default admin\<close>

text \<open>\<open>POST /create-admin\<close>: the route has no middleware before its handler.\<close>

definition create_admin :: "nat \<Rightarrow> store \<Rightarrow> request \<Rightarrow> response \<times> store" where
  "create_admin now st req =
     (case findOne_role st ''admin'' of
        Some existingAdmin \<Rightarrow> (respond 400 (ErrorJson ''Admin user already exists''), st)
      | None \<Rightarrow>
          (case save now st (new_User st ''Admin User'' ''vijay@test.ac.in'' ''vijay123'' ''admin'') of
             Inl m \<Rightarrow> (respond 400 (ErrorJson m), st)
           | Inr (adminUser, st') \<Rightarrow>
               (respond 201 (MessageUserJson ''Admin user created successfully'' (publicOf adminUser)),
                st')))"

text \<open>
  The bootstrap step of \<open>connectDB\<close> (the server file \<^verbatim>\<open>src/unnamed/part_000\<close>), once
  the connection stands: \<open>Inl\<close> is the error that the \<open>catch\<close> of \<open>connectDB\<close> receives.
\<close>

definition create_default_admin :: "nat \<Rightarrow> store \<Rightarrow> string + store" where
  "create_default_admin now st =
     (case findOne_role st ''admin'' of
        Some existingAdmin \<Rightarrow> Inr st
      | None \<Rightarrow>
          (case save now st (new_User st ''Admin User'' ''admin@test.ac.in'' ''admin123'' ''admin'') of
             Inl m \<Rightarrow> Inl m
           | Inr (adminUser, st') \<Rightarrow> Inr st'))"

text \<open>
  \<open>connectDB(retries)\<close>, called with 5 at startup: an error is retried after 5 seconds
  while retries remain, and the process exits (\<open>None\<close>) when none does. Failures to
  connect are outside the model.
\<close>

fun connectDB :: "nat \<Rightarrow> nat \<Rightarrow> store \<Rightarrow> store option" where
  "connectDB 0 now st =
     (case create_default_admin now st of Inl m \<Rightarrow> None | Inr st' \<Rightarrow> Some st')"
| "connectDB (Suc retries) now st =
     (case create_default_admin now st of
        Inl m \<Rightarrow> connectDB retries (now + 5) st
      | Inr st' \<Rightarrow> Some st')"

section \<open>Requests that differ in the password only\<close>

text \<open>
  Two entries of a body with the same key, and the same value unless the key is
  \<open>password\<close>; two documents that agree on what a response shows of them.
\<close>

definition same_but_password :: "(string \<times> jsval) \<Rightarrow> (string \<times> jsval) \<Rightarrow> bool" where
  "same_but_password kv1 kv2 = (fst kv1 = fst kv2 \<and> (fst kv1 = ''password'' \<or> snd kv1 = snd kv2))"

definition same_public :: "user \<Rightarrow> user \<Rightarrow> bool" where
  "same_public u1 u2 =
     (uid u1 = uid u2 \<and> name u1 = name u2 \<and> email u1 = email u2 \<and> role u1 = role u2
      \<and> active u1 = active u2)"

section \<open>Example data\<close>

definition example_env :: env where
  "example_env = \<lparr>JWT_SECRET = ''access-secret'', JWT_REFRESH_SECRET = ''refresh-secret''\<rparr>"

definition alice :: user where
  "alice = \<lparr>uid = 1, name = ''Alice'', email = ''alice@test.ac.in'', password = Hashed ''Abcdef1!'',
            role = ''user'', active = True, passwordChangedAt = Some 200\<rparr>"

definition bob :: user where
  "bob = \<lparr>uid = 2, name = ''Bob'', email = ''bob@test.ac.in'', password = Hashed ''Qwerty9$'',
          role = ''user'', active = False, passwordChangedAt = None\<rparr>"

definition root :: user where
  "root = \<lparr>uid = 3, name = ''Admin User'', email = ''admin@test.ac.in'', password = Hashed ''admin123'',
           role = ''admin'', active = True, passwordChangedAt = None\<rparr>"

definition credentials :: "string \<Rightarrow> string \<Rightarrow> request" where
  "credentials e p =
     \<lparr>authorization = None, cookies = None,
      body = [(''email'', JStr e), (''password'', JStr p)], params_userId = 0\<rparr>"

definition bearer :: "jwt \<Rightarrow> (string \<times> jsval) list \<Rightarrow> nat \<Rightarrow> request" where
  "bearer token b i =
     \<lparr>authorization = Some (Bearer (Some token)), cookies = None, body = b, params_userId = i\<rparr>"

definition with_cookie :: "jwt \<Rightarrow> request" where
  "with_cookie token =
     \<lparr>authorization = None, cookies = Some (Some token), body = [], params_userId = 0\<rparr>"

section \<open>Facts about the queries\<close>

lemma find_distinct_key:
  "distinct (map f xs) \<Longrightarrow> x \<in> set xs \<Longrightarrow> find (\<lambda>v. f v = f x) xs = Some x"
proof (induction xs)
  case Nil
  then show ?case by simp
next
  case (Cons a xs)
  show ?case
  proof (cases "a = x")
    case True
    then show ?thesis by simp
  next
    case False
    with Cons.prems have "x \<in> set xs" by simp
    moreover from Cons.prems have "distinct (map f xs)" by simp
    moreover from Cons.prems \<open>x \<in> set xs\<close> have "f a \<noteq> f x" by auto
    ultimately show ?thesis using Cons.IH by simp
  qed
qed

lemma findById_member:
  "distinct (map uid st) \<Longrightarrow> u \<in> set st \<Longrightarrow> findById st (uid u) = Some u"
  unfolding findById_def by (rule find_distinct_key)

lemma findOne_email_member:
  "distinct (map email st) \<Longrightarrow> u \<in> set st \<Longrightarrow> findOne_email st (email u) = Some u"
  unfolding findOne_email_def by (rule find_distinct_key)

lemma findOne_id_active_inactive:
  assumes "distinct (map uid st)" and "u \<in> set st" and "\<not> active u"
  shows "findOne_id_active st (uid u) = None"
proof -
  have "\<And>v. v \<in> set st \<Longrightarrow> uid v = uid u \<Longrightarrow> v = u"
    using assms(1,2) by (meson distinct_map inj_onD)
  with assms(3) show ?thesis
    unfolding findOne_id_active_def by (auto simp: find_None_iff)
qed

lemma findById_Some: "findById st i = Some u \<Longrightarrow> u \<in> set st \<and> uid u = i"
  by (auto simp: findById_def find_Some_iff)

lemma findById_exists: "u \<in> set st \<Longrightarrow> \<exists>old. findById st (uid u) = Some old"
  by (cases "findById st (uid u)") (auto simp: findById_def find_None_iff)

lemma findById_replace:
  "findById st i = Some old \<Longrightarrow> uid u' = i \<Longrightarrow>
     findById (map (\<lambda>v. if uid v = i then u' else v) st) i = Some u'"
  by (induction st) (auto simp: findById_def split: if_splits)

lemma findById_replace_other:
  "j \<noteq> i \<Longrightarrow> uid u' = i \<Longrightarrow>
     findById (map (\<lambda>v. if uid v = i then u' else v) st) j = findById st j"
  by (induction st) (auto simp: findById_def)

lemma auth_user_active: "auth e st now h = Inr (v, t) \<Longrightarrow> v \<in> set st \<and> active v"
  by (auto simp: auth_def auth_try_def findOne_id_active_def find_Some_iff
      split: option.splits header.splits sum.splits if_splits)

section \<open>Tokens and a password change\<close>

text \<open>
  The middleware rejects an access token that verifies and resolves to an active identity
  whose \<open>passwordChangedAt\<close> is later than the token's \<open>iat\<close>.
\<close>

lemma auth_rejects_stale_token:
  assumes "jwt_verify token (JWT_SECRET e) now = Inr d"
    and "findOne_id_active st (userId d) = Some u"
    and "passwordChangedAt u = Some changed" and "iat d < changed"
  shows "auth e st now (Some (Bearer (Some token)))
           = Inl (respond 401 (StatusMessageJson ''error''
                    ''User recently changed password. Please log in again''))"
  using assms by (simp add: auth_def auth_try_def changedPasswordAfter_def)

text \<open>
  The refresh handler never reads \<open>passwordChangedAt\<close>: a refresh token that verifies
  and resolves to an active identity gets a new access token.
\<close>

lemma refresh_token_accepts:
  assumes "cookies req = Some (Some token)"
    and "jwt_verify token (JWT_REFRESH_SECRET e) now = Inr d"
    and "findById st (userId d) = Some u" and "active u"
  shows "refresh_token e st now req = respond 200 (AccessTokenJson (generateToken e now (uid u) ''access''))"
  using assms by (simp add: refresh_token_def)

text \<open>
  Were a cookie parser mounted, the handler would accept a refresh token issued before
  the password change: Alice's password changed at time 200, her refresh token of time
  100 is presented at time 300 and gets a new access token, which the middleware accepts.
\<close>

lemma refresh_handler_accepts_parsed_stale_cookie:
  "passwordChangedAt alice = Some 200
   \<and> generateToken example_env 100 (uid alice) ''refresh''
       = Signed \<lparr>userId = 1, iat = 100, exp = 604900\<rparr> ''refresh-secret''
   \<and> refresh_token example_env [alice] 300 (with_cookie (generateToken example_env 100 (uid alice) ''refresh''))
       = respond 200 (AccessTokenJson (Signed \<lparr>userId = 1, iat = 300, exp = 3900\<rparr> ''access-secret''))
   \<and> auth example_env [alice] 300 (Some (Bearer (Some (Signed \<lparr>userId = 1, iat = 300, exp = 3900\<rparr> ''access-secret''))))
       = Inr (alice, Signed \<lparr>userId = 1, iat = 300, exp = 3900\<rparr> ''access-secret'')"
  by (simp add: auth_def auth_try_def refresh_token_def with_cookie_def generateToken_def jwt_sign_def
        jwt_verify_def example_env_def alice_def findById_def findOne_id_active_def changedPasswordAfter_def)





section \<open>Login failures\<close>

text \<open>
  C2, as the code has it. For a login request with a non-empty email and password that
  the limiter lets through: an email no identity holds, and a wrong password for an
  active identity, both give 401 with the message \<open>Invalid credentials\<close>; the email of a
  deactivated identity gives 401 with the message \<open>Account is deactivated\<close>, whatever the
  password.
\<close>

theorem login_failure_messages:
  assumes "map_of (body req) ''email'' = Some (JStr em)" and "em \<noteq> []"
    and "map_of (body req) ''password'' = Some (JStr p)" and "p \<noteq> []"
  shows "(findOne_email st em = None \<longrightarrow>
            login False e st now req = respond 401 (ErrorJson ''Invalid credentials''))
       \<and> (findOne_email st em = Some u \<and> active u \<and> \<not> comparePassword u p \<longrightarrow>
            login False e st now req = respond 401 (ErrorJson ''Invalid credentials''))
       \<and> (findOne_email st em = Some u \<and> \<not> active u \<longrightarrow>
            login False e st now req = respond 401 (ErrorJson ''Account is deactivated''))"
  using assms by (auto simp: login_def login_handler_def)

theorem login_failure_messages_witness:
  "login False example_env [alice, bob] 1000 (credentials ''nobody@test.ac.in'' ''Qwerty9$'')
     = respond 401 (ErrorJson ''Invalid credentials'')
   \<and> login False example_env [alice, bob] 1000 (credentials ''alice@test.ac.in'' ''Qwerty9$'')
     = respond 401 (ErrorJson ''Invalid credentials'')
   \<and> login False example_env [alice, bob] 1000 (credentials ''bob@test.ac.in'' ''Qwerty9$'')
     = respond 401 (ErrorJson ''Account is deactivated'')"
proof -
  have p: "map_of (body (credentials em ''Qwerty9$'')) ''password'' = Some (JStr ''Qwerty9$'')" for em
    by (simp add: credentials_def)
  have m: "map_of (body (credentials em ''Qwerty9$'')) ''email'' = Some (JStr em)" for em
    by (simp add: credentials_def)
  have "findOne_email [alice, bob] ''nobody@test.ac.in'' = None"
    by (simp add: findOne_email_def alice_def bob_def)
  moreover have "findOne_email [alice, bob] ''alice@test.ac.in'' = Some alice
      \<and> active alice \<and> \<not> comparePassword alice ''Qwerty9$''"
    by (simp add: findOne_email_def comparePassword_def alice_def)
  moreover have "findOne_email [alice, bob] ''bob@test.ac.in'' = Some bob \<and> \<not> active bob"
    by (simp add: findOne_email_def alice_def bob_def)
  ultimately show ?thesis
    using login_failure_messages [OF m [of "''nobody@test.ac.in''"] _ p [of "''nobody@test.ac.in''"],
        where st = "[alice, bob]" and e = example_env and now = 1000]
      login_failure_messages [OF m [of "''alice@test.ac.in''"] _ p [of "''alice@test.ac.in''"],
        where st = "[alice, bob]" and u = alice and e = example_env and now = 1000]
      login_failure_messages [OF m [of "''bob@test.ac.in''"] _ p [of "''bob@test.ac.in''"],
        where st = "[alice, bob]" and u = bob and e = example_env and now = 1000]
    by simp
qed

text \<open>
  C2 as stated fails: a login for the email of a deactivated identity and a login for an
  email nobody holds get different messages.
\<close>

theorem login_deactivated_distinguished:
  "findOne_email [alice, bob] ''nobody@test.ac.in'' = None
   \<and> findOne_email [alice, bob] ''bob@test.ac.in'' = Some bob \<and> active bob = False
   \<and> login False example_env [alice, bob] 1000 (credentials ''nobody@test.ac.in'' ''Qwerty9$'')
       = respond 401 (ErrorJson ''Invalid credentials'')
   \<and> login False example_env [alice, bob] 1000 (credentials ''bob@test.ac.in'' ''Qwerty9$'')
       = respond 401 (ErrorJson ''Account is deactivated'')
   \<and> login False example_env [alice, bob] 1000 (credentials ''nobody@test.ac.in'' ''Qwerty9$'')
       \<noteq> login False example_env [alice, bob] 1000 (credentials ''bob@test.ac.in'' ''Qwerty9$'')"
  by (simp add: login_def login_handler_def credentials_def findOne_email_def alice_def bob_def respond_def)

section \<open>Rejections of the middleware\<close>

text \<open>
  C3, as the code has it. An expired token with a good signature and a token signed with
  another secret are both rejected with status 401 and \<open>status: 'error'\<close>, and the
  message is the one of the error that \<open>jwt.verify\<close> threw: \<open>jwt expired\<close> for the
  first, \<open>invalid signature\<close> for the second.
\<close>

theorem auth_failure_messages:
  assumes "exp p1 \<le> now" and "k \<noteq> JWT_SECRET e"
  shows "auth e st now (Some (Bearer (Some (Signed p1 (JWT_SECRET e)))))
           = Inl (respond 401 (StatusMessageJson ''error'' ''jwt expired''))
       \<and> auth e st now (Some (Bearer (Some (Signed p2 k))))
           = Inl (respond 401 (StatusMessageJson ''error'' ''invalid signature''))"
  using assms by (simp add: auth_def auth_try_def jwt_verify_def)

theorem auth_failure_messages_witness:
  "auth example_env [alice] 5000
     (Some (Bearer (Some (Signed \<lparr>userId = 1, iat = 300, exp = 3900\<rparr> (JWT_SECRET example_env)))))
     = Inl (respond 401 (StatusMessageJson ''error'' ''jwt expired''))
   \<and> auth example_env [alice] 5000
     (Some (Bearer (Some (Signed \<lparr>userId = 1, iat = 300, exp = 9000\<rparr> ''forged''))))
     = Inl (respond 401 (StatusMessageJson ''error'' ''invalid signature''))"
proof -
  have x: "exp \<lparr>userId = 1, iat = 300, exp = 3900\<rparr> \<le> (5000::nat)" by simp
  have f: "''forged'' \<noteq> JWT_SECRET example_env" by (simp add: example_env_def)
  show ?thesis
    using auth_failure_messages [OF x f] by simp
qed

text \<open>
  C3 as stated fails: the responses to an expired token and to a forged one differ in
  their message.
\<close>

theorem expired_forged_distinguished:
  "jwt_verify (Signed \<lparr>userId = 1, iat = 300, exp = 3900\<rparr> ''access-secret'') (JWT_SECRET example_env) 5000
     = Inl ''jwt expired''
   \<and> jwt_verify (Signed \<lparr>userId = 1, iat = 300, exp = 9000\<rparr> ''forged'') (JWT_SECRET example_env) 5000
     = Inl ''invalid signature''
   \<and> auth example_env [alice] 5000
       (Some (Bearer (Some (Signed \<lparr>userId = 1, iat = 300, exp = 3900\<rparr> ''access-secret''))))
     \<noteq> auth example_env [alice] 5000
       (Some (Bearer (Some (Signed \<lparr>userId = 1, iat = 300, exp = 9000\<rparr> ''forged''))))"
  by (simp add: auth_def auth_try_def jwt_verify_def example_env_def respond_def)

section \<open>Token issue and verification\<close>

text \<open>
  C4. When the access and the refresh secret differ, an access token issued for a subject
  verifies under the access secret to that subject and fails under the refresh secret,
  and a refresh token fails under the access secret (and verifies under its own).
\<close>

theorem issue_verify_kind:
  assumes "JWT_SECRET e \<noteq> JWT_REFRESH_SECRET e"
  shows "(\<exists>p. jwt_verify (generateToken e now s ''access'') (JWT_SECRET e) now = Inr p \<and> userId p = s)
       \<and> jwt_verify (generateToken e now s ''access'') (JWT_REFRESH_SECRET e) now = Inl ''invalid signature''
       \<and> jwt_verify (generateToken e now s ''refresh'') (JWT_SECRET e) now = Inl ''invalid signature''
       \<and> (\<exists>p. jwt_verify (generateToken e now s ''refresh'') (JWT_REFRESH_SECRET e) now = Inr p \<and> userId p = s)"
  using assms by (auto simp: generateToken_def jwt_sign_def jwt_verify_def)

theorem issue_verify_kind_witness:
  "(\<exists>p. jwt_verify (generateToken \<lparr>JWT_SECRET = ''a'', JWT_REFRESH_SECRET = ''r''\<rparr> 10 7 ''access'') ''a'' 10 = Inr p
        \<and> userId p = 7)
   \<and> jwt_verify (generateToken \<lparr>JWT_SECRET = ''a'', JWT_REFRESH_SECRET = ''r''\<rparr> 10 7 ''access'') ''r'' 10
       = Inl ''invalid signature''
   \<and> jwt_verify (generateToken \<lparr>JWT_SECRET = ''a'', JWT_REFRESH_SECRET = ''r''\<rparr> 10 7 ''refresh'') ''a'' 10
       = Inl ''invalid signature''"
  using issue_verify_kind [of "\<lparr>JWT_SECRET = ''a'', JWT_REFRESH_SECRET = ''r''\<rparr>" 10 7] by simp

section \<open>Deactivated identities\<close>

text \<open>
  C5. In a store whose identifiers and emails are unique, for an identity with
  \<open>active = false\<close>: a login with its email does not succeed, the middleware answers
  every token whose subject is that identity with 401, and the refresh handler answers
  every refresh token for it with 401. Whenever the middleware, a login or a refresh
  succeeds, the identity it resolved is active.
\<close>

theorem deactivated_never_authenticates:
  assumes "distinct (map uid st)" and "distinct (map email st)" and "u \<in> set st" and "\<not> active u"
  shows "(map_of (body lreq) ''email'' = Some (JStr (email u)) \<longrightarrow>
            status (login limited e st now lreq) \<in> {400, 401, 429})
       \<and> (userId d = uid u \<longrightarrow>
            (\<exists>m. auth e st now (Some (Bearer (Some (Signed d k))))
                   = Inl (respond 401 (StatusMessageJson ''error'' m))))
       \<and> (cookies rreq = Some (Some (Signed rd rk)) \<and> userId rd = uid u \<longrightarrow>
            refresh_token e st now rreq = respond 401 (ErrorJson ''Invalid refresh token''))
       \<and> (auth e st now h = Inr (v, t) \<longrightarrow> active v)
       \<and> (status (login limited e st now req) = 200 \<longrightarrow>
            (\<exists>w ev. map_of (body req) ''email'' = Some ev \<and> findOne_email st (toString ev) = Some w
                     \<and> active w))
       \<and> (status (refresh_token e st now req) = 200 \<longrightarrow>
            (\<exists>w token d'. cookies req = Some (Some token) \<and> jwt_verify token (JWT_REFRESH_SECRET e) now = Inr d'
                     \<and> findById st (userId d') = Some w \<and> active w))"
proof -
  have em: "findOne_email st (email u) = Some u"
    using assms by (simp add: findOne_email_member)
  have l: "map_of (body lreq) ''email'' = Some (JStr (email u)) \<longrightarrow>
            status (login limited e st now lreq) \<in> {400, 401, 429}"
    using em assms(4) by (auto simp: login_def login_handler_def respond_def split: option.splits)
  have na: "findOne_id_active st (uid u) = None"
    using assms by (simp add: findOne_id_active_inactive)
  have a: "userId d = uid u \<longrightarrow>
            (\<exists>m. auth e st now (Some (Bearer (Some (Signed d k))))
                   = Inl (respond 401 (StatusMessageJson ''error'' m)))"
    using na by (auto simp: auth_def auth_try_def jwt_verify_def)
  have fb: "findById st (uid u) = Some u"
    using assms by (simp add: findById_member)
  have r: "cookies rreq = Some (Some (Signed rd rk)) \<and> userId rd = uid u \<longrightarrow>
            refresh_token e st now rreq = respond 401 (ErrorJson ''Invalid refresh token'')"
    using fb assms(4) by (simp add: refresh_token_def jwt_verify_def)
  have s: "auth e st now h = Inr (v, t) \<longrightarrow> active v"
    by (simp add: auth_user_active)
  have ls: "status (login limited e st now req) = 200 \<longrightarrow>
            (\<exists>w ev. map_of (body req) ''email'' = Some ev \<and> findOne_email st (toString ev) = Some w
                     \<and> active w)"
    by (auto simp: login_def login_handler_def respond_def split: option.splits if_splits)
  have rs: "status (refresh_token e st now req) = 200 \<longrightarrow>
            (\<exists>w token d'. cookies req = Some (Some token) \<and> jwt_verify token (JWT_REFRESH_SECRET e) now = Inr d'
                     \<and> findById st (userId d') = Some w \<and> active w)"
    by (auto simp: refresh_token_def respond_def split: option.splits sum.splits if_splits)
  from l a r s ls rs show ?thesis by blast
qed

theorem deactivated_never_authenticates_witness:
  "status (login False example_env [alice, bob] 1000 (credentials ''bob@test.ac.in'' ''Qwerty9$''))
     \<in> {400, 401, 429}
   \<and> (\<exists>m. auth example_env [alice, bob] 1000
             (Some (Bearer (Some (Signed \<lparr>userId = 2, iat = 900, exp = 4500\<rparr> ''access-secret''))))
           = Inl (respond 401 (StatusMessageJson ''error'' m)))
   \<and> refresh_token example_env [alice, bob] 1000
        (with_cookie (Signed \<lparr>userId = 2, iat = 900, exp = 605700\<rparr> ''refresh-secret''))
       = respond 401 (ErrorJson ''Invalid refresh token'')"
proof -
  have h1: "distinct (map uid [alice, bob])" by (simp add: alice_def bob_def)
  have h2: "distinct (map email [alice, bob])" by (simp add: alice_def bob_def)
  have h3: "bob \<in> set [alice, bob]" by simp
  have h4: "\<not> active bob" by (simp add: bob_def)
  note t = deactivated_never_authenticates [OF h1 h2 h3 h4,
      where lreq = "credentials ''bob@test.ac.in'' ''Qwerty9$''" and limited = False
      and e = example_env and now = 1000
      and d = "\<lparr>userId = 2, iat = 900, exp = 4500\<rparr>" and k = "''access-secret''"
      and rd = "\<lparr>userId = 2, iat = 900, exp = 605700\<rparr>" and rk = "''refresh-secret''"
      and rreq = "with_cookie (Signed \<lparr>userId = 2, iat = 900, exp = 605700\<rparr> ''refresh-secret'')"]
  then show ?thesis
    by (simp add: credentials_def with_cookie_def bob_def)
qed

section \<open>Self-update with a field outside the allow-list\<close>

lemma isValidOperation_member:
  "isValidOperation allowed keys \<Longrightarrow> k \<in> set keys \<Longrightarrow> k \<in> set allowed"
  by (auto simp: isValidOperation_def list_all_iff)

text \<open>
  C6. When the body of a \<open>PATCH /me\<close> request has a key outside \<open>name\<close>, \<open>email\<close>,
  \<open>password\<close>, the handler answers 400 \<open>Invalid updates\<close> and the store is unchanged;
  so does the route for every request that passes the middleware, and the route leaves
  the store unchanged in any case.
\<close>

theorem patch_me_invalid_updates:
  assumes "k \<in> set (map fst (body req))" and "k \<notin> {''name'', ''email'', ''password''}"
  shows "patch_me_handler now st u req = (respond 400 (ErrorJson ''Invalid updates''), st)
       \<and> snd (patch_me e st now req) = st
       \<and> (auth e st now (authorization req) = Inr (a, token) \<longrightarrow>
             patch_me e st now req = (respond 400 (ErrorJson ''Invalid updates''), st))"
proof -
  have "\<not> isValidOperation [''name'', ''email'', ''password''] (map fst (body req))"
    using assms isValidOperation_member [of "[''name'', ''email'', ''password'']" "map fst (body req)" k]
    by auto
  then have h: "patch_me_handler now st w req = (respond 400 (ErrorJson ''Invalid updates''), st)" for w
    by (simp add: patch_me_handler_def)
  then show ?thesis
    by (auto simp: patch_me_def split: sum.splits)
qed

theorem patch_me_invalid_updates_witness:
  "auth example_env [alice] 1000
     (authorization (bearer (generateToken example_env 900 1 ''access'')
        [(''name'', JStr ''Al''), (''role'', JStr ''admin'')] 0))
     = Inr (alice, generateToken example_env 900 1 ''access'')
   \<and> patch_me example_env [alice] 1000
        (bearer (generateToken example_env 900 1 ''access'')
           [(''name'', JStr ''Al''), (''role'', JStr ''admin'')] 0)
     = (respond 400 (ErrorJson ''Invalid updates''), [alice])"
proof -
  let ?req = "bearer (generateToken example_env 900 1 ''access'')
                [(''name'', JStr ''Al''), (''role'', JStr ''admin'')] 0"
  have k: "''role'' \<in> set (map fst (body ?req))" by (simp add: bearer_def)
  have n: "''role'' \<notin> {''name'', ''email'', ''password''}" by simp
  have a: "auth example_env [alice] 1000 (authorization ?req)
             = Inr (alice, generateToken example_env 900 1 ''access'')"
    by (simp add: auth_def auth_try_def bearer_def generateToken_def jwt_sign_def jwt_verify_def
          findOne_id_active_def changedPasswordAfter_def example_env_def alice_def)
  show ?thesis
    using a patch_me_invalid_updates [OF k n, where e = example_env and st = "[alice]" and now = 1000
        and a = alice and token = "generateToken example_env 900 1 ''access''"]
    by simp
qed

section \<open>Registration and the strength of a password\<close>

lemma lookahead_list_ex: "lookahead cls s \<Longrightarrow> list_ex cls s"
  unfolding lookahead_def list_ex_iff by (meson set_takeWhileD)

lemma passwordRegex_strong:
  "passwordRegex p \<Longrightarrow>
     8 \<le> length p \<and> list_ex upper_c p \<and> list_ex lower_c p \<and> list_ex digit_c p \<and> list_ex special_c p"
  by (simp add: passwordRegex_def lookahead_list_ex)

lemma class_c_dot_c: "class_c c \<Longrightarrow> dot_c c"
  by (auto simp: class_c_def lower_c_def upper_c_def digit_c_def special_c_def dot_c_def)

lemma takeWhile_dot_c_class: "list_all class_c s \<Longrightarrow> takeWhile dot_c s = s"
  by (induction s) (auto simp: class_c_dot_c)

text \<open>What the regular expression accepts, without the lookaheads.\<close>

lemma passwordRegex_iff:
  "passwordRegex s \<longleftrightarrow>
     8 \<le> length s \<and> list_all class_c s
     \<and> list_ex lower_c s \<and> list_ex upper_c s \<and> list_ex digit_c s \<and> list_ex special_c s"
  by (auto simp: passwordRegex_def lookahead_def takeWhile_dot_c_class)

lemma register_handler_weak:
  assumes "map_of (body req) ''password'' = Some pv" and "\<not> passwordRegex (toString pv)"
  shows "status (fst (register_handler now st req)) = 400 \<and> snd (register_handler now st req) = st"
  using assms by (auto simp: register_handler_def respond_def split: option.splits)

lemma register_route_cases:
  "register e st now req = register_handler now st req
   \<or> (snd (register e st now req) = st \<and> status (fst (register e st now req)) \<in> {401, 403})"
  by (auto simp: register_def auth_def checkRole_def respond_def split: sum.splits option.splits)

text \<open>
  C7. When the password of a register request, read as the string \<open>p\<close>, has fewer
  than 8 characters, or no uppercase letter, or no lowercase letter, or no digit, or none
  of the symbols, the handler answers 400 and creates nothing; so does the route for
  every request of an authenticated admin, and the route leaves the store unchanged in
  any case.
\<close>

theorem register_rejects_weak_password:
  assumes "map_of (body req) ''password'' = Some pv" and "p = toString pv"
    and "length p < 8 \<or> \<not> list_ex upper_c p \<or> \<not> list_ex lower_c p
         \<or> \<not> list_ex digit_c p \<or> \<not> list_ex special_c p"
  shows "status (fst (register_handler now st req)) = 400
       \<and> snd (register_handler now st req) = st
       \<and> snd (register e st now req) = st
       \<and> (auth e st now (authorization req) = Inr (a, token) \<and> role a = ''admin'' \<longrightarrow>
             status (fst (register e st now req)) = 400)"
proof -
  from assms(2,3) have weak: "\<not> passwordRegex (toString pv)"
    using passwordRegex_strong [of p] by auto
  have h: "status (fst (register_handler now st req)) = 400 \<and> snd (register_handler now st req) = st"
    using assms(1) weak by (rule register_handler_weak)
  have r: "snd (register e st now req) = st"
    using register_route_cases [of e st now req] h by auto
  have g: "auth e st now (authorization req) = Inr (a, token) \<and> role a = ''admin'' \<longrightarrow>
             status (fst (register e st now req)) = 400"
    using h by (auto simp: register_def checkRole_def)
  from h r g show ?thesis by simp
qed

theorem register_rejects_weak_password_witness:
  "auth example_env [root] 1000
     (authorization (bearer (generateToken example_env 900 3 ''access'')
        [(''name'', JStr ''Dan''), (''email'', JStr ''dan@test.ac.in''), (''password'', JStr ''Abcdefg1'')] 0))
     = Inr (root, generateToken example_env 900 3 ''access'')
   \<and> status (fst (register example_env [root] 1000
        (bearer (generateToken example_env 900 3 ''access'')
           [(''name'', JStr ''Dan''), (''email'', JStr ''dan@test.ac.in''), (''password'', JStr ''Abcdefg1'')] 0)))
     = 400
   \<and> snd (register example_env [root] 1000
        (bearer (generateToken example_env 900 3 ''access'')
           [(''name'', JStr ''Dan''), (''email'', JStr ''dan@test.ac.in''), (''password'', JStr ''Abcdefg1'')] 0))
     = [root]"
proof -
  let ?req = "bearer (generateToken example_env 900 3 ''access'')
     [(''name'', JStr ''Dan''), (''email'', JStr ''dan@test.ac.in''), (''password'', JStr ''Abcdefg1'')] 0"
  have p: "map_of (body ?req) ''password'' = Some (JStr ''Abcdefg1'')" by (simp add: bearer_def)
  have w: "length ''Abcdefg1'' < 8 \<or> \<not> list_ex upper_c ''Abcdefg1'' \<or> \<not> list_ex lower_c ''Abcdefg1''
         \<or> \<not> list_ex digit_c ''Abcdefg1'' \<or> \<not> list_ex special_c ''Abcdefg1''"
    by (simp add: special_c_def)
  have a: "auth example_env [root] 1000 (authorization ?req)
             = Inr (root, generateToken example_env 900 3 ''access'')"
    by (simp add: auth_def auth_try_def bearer_def generateToken_def jwt_sign_def jwt_verify_def
          findOne_id_active_def changedPasswordAfter_def example_env_def root_def)
  have r: "role root = ''admin''" by (simp add: root_def)
  show ?thesis
    using a r register_rejects_weak_password [OF p _ w, where e = example_env and st = "[root]"
        and now = 1000 and a = root and token = "generateToken example_env 900 3 ''access''"]
    by simp
qed

section \<open>Saving\<close>

lemma save_stored:
  assumes "findById st (uid u) = Some old" and "email u = email old \<or> findOne_email st (email u) = None"
  shows "save now st u =
           Inr (pre_save now False u, map (\<lambda>v. if uid v = uid u then pre_save now False u else v) st)"
  using assms by (auto simp: save_def)

lemma uid_pre_save: "uid (pre_save now isNew u) = uid u"
  by (simp add: pre_save_def split: pw.splits)

text \<open>A saved document holds a digest, so a store that holds digests only keeps doing so.\<close>

lemma pre_save_digest: "\<exists>h. password (pre_save now isNew u) = Hashed h"
  by (cases "password u") (simp_all add: pre_save_def)

lemma save_keeps_digests:
  assumes "\<forall>v\<in>set st. \<exists>h. password v = Hashed h" and "save now st u = Inr (saved, st')"
  shows "\<forall>v\<in>set st'. \<exists>h. password v = Hashed h"
proof (cases "findById st (uid u)")
  case None
  with assms(2) have "st' = st @ [pre_save now True u]"
    by (auto simp: save_def split: if_splits)
  with assms(1) pre_save_digest [of now True u] show ?thesis by auto
next
  case (Some old)
  with assms(2) have "st' = map (\<lambda>v. if uid v = uid u then pre_save now False u else v) st"
    by (auto simp: save_def split: if_splits)
  with assms(1) pre_save_digest [of now False u] show ?thesis by auto
qed

lemma email_pre_save: "email (pre_save now isNew u) = email u"
  by (simp add: pre_save_def split: pw.splits)

text \<open>A save keeps the identifiers and the emails of the store unique.\<close>

lemma save_keeps_unique:
  assumes ids: "distinct (map uid st)" and ems: "distinct (map email st)"
    and sv: "save now st u = Inr (saved, st')"
  shows "distinct (map uid st') \<and> distinct (map email st')"
proof (cases "findById st (uid u)")
  case None
  with sv have e: "findOne_email st (email u) = None" and st': "st' = st @ [pre_save now True u]"
    by (auto simp: save_def split: if_splits)
  from None have "uid u \<notin> uid ` set st"
    by (auto simp: findById_def find_None_iff)
  moreover from e have "email u \<notin> email ` set st"
    by (auto simp: findOne_email_def find_None_iff)
  ultimately show ?thesis
    using ids ems st' by (simp add: uid_pre_save email_pre_save)
next
  case (Some old)
  let ?s = "pre_save now False u"
  let ?f = "\<lambda>v. if uid v = uid u then ?s else v"
  from sv Some have e: "email u = email old \<or> findOne_email st (email u) = None"
    and st': "st' = map ?f st"
    by (auto simp: save_def split: if_splits)
  from Some have old: "old \<in> set st" "uid old = uid u" by (simp_all add: findById_Some)
  have only: "v = old" if "v \<in> set st" "uid v = uid u" for v
    using ids that old by (metis distinct_map inj_onD)
  have u1: "map uid st' = map uid st"
    by (simp add: st' uid_pre_save)
  have dst: "distinct st" using ids by (simp add: distinct_map)
  have inj: "inj_on email (set st)" using ems by (simp add: distinct_map)
  have "inj_on (\<lambda>v. email (?f v)) (set st)"
  proof (rule inj_onI)
    fix v w assume v: "v \<in> set st" and w: "w \<in> set st" and eq: "email (?f v) = email (?f w)"
    show "v = w"
    proof (cases "uid v = uid u")
      case True
      then have vo: "v = old" using only v by blast
      show ?thesis
      proof (cases "uid w = uid u")
        case True
        then show ?thesis using only w vo by blast
      next
        case False
        with True eq have ew: "email u = email w" by (simp add: email_pre_save)
        from e show ?thesis
        proof
          assume "email u = email old"
          with ew have "email w = email old" by simp
          then show ?thesis using inj w old(1) vo by (auto dest: inj_onD)
        next
          assume "findOne_email st (email u) = None"
          with w ew show ?thesis by (auto simp: findOne_email_def find_None_iff)
        qed
      qed
    next
      case False
      show ?thesis
      proof (cases "uid w = uid u")
        case True
        then have wo: "w = old" using only w by blast
        from True False eq have ev: "email v = email u" by (simp add: email_pre_save)
        from e show ?thesis
        proof
          assume "email u = email old"
          with ev have "email v = email old" by simp
          then show ?thesis using inj v old(1) wo by (auto dest: inj_onD)
        next
          assume "findOne_email st (email u) = None"
          with v ev show ?thesis by (auto simp: findOne_email_def find_None_iff)
        qed
      next
        case w': False
        with False eq have "email v = email w" by simp
        then show ?thesis using inj v w by (auto dest: inj_onD)
      qed
    qed
  qed
  with dst have "distinct (map (\<lambda>v. email (?f v)) st)" by (simp add: distinct_map)
  then have "distinct (map email st')" by (simp add: st' comp_def)
  with u1 ids show ?thesis by simp
qed

lemma fold_max_ge: "(a::nat) \<le> fold max xs a \<and> (\<forall>x\<in>set xs. x \<le> fold max xs a)"
proof (induction xs arbitrary: a)
  case Nil
  then show ?case by simp
next
  case (Cons y ys)
  have "max y a \<le> fold max ys (max y a)" using Cons.IH by blast
  moreover have "\<forall>x\<in>set ys. x \<le> fold max ys (max y a)" using Cons.IH by blast
  ultimately show ?case by auto
qed

lemma findById_newObjectId: "findById st (newObjectId st) = None"
proof -
  have "\<forall>v\<in>set st. uid v \<le> fold max (map uid st) 0"
    using fold_max_ge [of 0 "map uid st"] by simp
  then have "\<forall>v\<in>set st. uid v \<noteq> newObjectId st"
    by (auto simp: newObjectId_def)
  then show ?thesis
    by (auto simp: findById_def find_None_iff)
qed

lemma save_new_User:
  assumes "findOne_email st em = None"
  shows "save now st (new_User st n em p r) =
           Inr (\<lparr>uid = newObjectId st, name = n, email = em, password = Hashed p, role = r,
                 active = True, passwordChangedAt = None\<rparr>,
                st @ [\<lparr>uid = newObjectId st, name = n, email = em, password = Hashed p, role = r,
                       active = True, passwordChangedAt = None\<rparr>])"
proof -
  have "findById st (uid (new_User st n em p r)) = None"
    using findById_newObjectId [of st] by (simp add: new_User_def)
  then show ?thesis
    using assms by (simp add: save_def pre_save_def new_User_def)
qed

section \<open>Deleting a user\<close>

text \<open>
  C8, for the handler of routes/auth.js. When the identifier of the request resolves to
  a stored identity, the handler answers 200, and the store afterwards has the same
  length, returns that identity for its identifier with \<open>active = false\<close> and every other
  field as before, and answers every other identifier as before. An authenticated admin
  reaches the handler.
\<close>

theorem delete_user_deactivates:
  assumes "findById st (params_userId req) = Some u" and "password u = Hashed h"
  shows "delete_user_handler now st req =
           (respond 200 (MessageJson ''User deactivated successfully''),
            map (\<lambda>v. if uid v = uid u then u\<lparr>active := False\<rparr> else v) st)
       \<and> findById (snd (delete_user_handler now st req)) (params_userId req) = Some (u\<lparr>active := False\<rparr>)
       \<and> length (snd (delete_user_handler now st req)) = length st
       \<and> (j \<noteq> params_userId req \<longrightarrow>
             findById (snd (delete_user_handler now st req)) j = findById st j)
       \<and> (auth e st now (authorization req) = Inr (a, token) \<and> role a = ''admin'' \<longrightarrow>
             delete_user e st now req = delete_user_handler now st req)"
proof -
  let ?u' = "u\<lparr>active := False\<rparr>"
  from assms(1) have id: "uid u = params_userId req" by (simp add: findById_Some)
  have ps: "pre_save now False ?u' = ?u'"
    using assms(2) by (simp add: pre_save_def)
  have "findById st (uid ?u') = Some u" using assms(1) id by simp
  then have sv: "save now st ?u' = Inr (?u', map (\<lambda>v. if uid v = uid u then ?u' else v) st)"
    using save_stored [of st ?u' u now] ps by simp
  have h: "delete_user_handler now st req =
           (respond 200 (MessageJson ''User deactivated successfully''),
            map (\<lambda>v. if uid v = uid u then ?u' else v) st)"
    using assms(1) sv by (simp add: delete_user_handler_def)
  have f: "findById (snd (delete_user_handler now st req)) (params_userId req) = Some ?u'"
    using h assms(1) id findById_replace [of st "uid u" u ?u'] by simp
  have l: "length (snd (delete_user_handler now st req)) = length st"
    using h by simp
  have o: "j \<noteq> params_userId req \<longrightarrow>
             findById (snd (delete_user_handler now st req)) j = findById st j"
    using h id findById_replace_other [of j "uid u" ?u' st] by simp
  have r: "auth e st now (authorization req) = Inr (a, token) \<and> role a = ''admin'' \<longrightarrow>
             delete_user e st now req = delete_user_handler now st req"
    by (simp add: delete_user_def checkRole_def)
  from h f l o r show ?thesis by blast
qed

theorem delete_user_deactivates_witness:
  "delete_user_handler 1000 [root, alice] (bearer (generateToken example_env 900 3 ''access'') [] 1)
     = (respond 200 (MessageJson ''User deactivated successfully''), [root, alice\<lparr>active := False\<rparr>])
   \<and> findById [root, alice\<lparr>active := False\<rparr>] 1 = Some (alice\<lparr>active := False\<rparr>)
   \<and> findById [root, alice\<lparr>active := False\<rparr>] 3 = findById [root, alice] 3
   \<and> delete_user example_env [root, alice] 1000 (bearer (generateToken example_env 900 3 ''access'') [] 1)
     = (respond 200 (MessageJson ''User deactivated successfully''), [root, alice\<lparr>active := False\<rparr>])"
proof -
  let ?req = "bearer (generateToken example_env 900 3 ''access'') [] 1"
  have f: "findById [root, alice] (params_userId ?req) = Some alice"
    by (simp add: findById_def bearer_def root_def alice_def)
  have h: "password alice = Hashed ''Abcdef1!''" by (simp add: alice_def)
  have a: "auth example_env [root, alice] 1000 (authorization ?req)
             = Inr (root, generateToken example_env 900 3 ''access'')"
    by (simp add: auth_def auth_try_def bearer_def generateToken_def jwt_sign_def jwt_verify_def
          findOne_id_active_def changedPasswordAfter_def example_env_def root_def)
  have r: "role root = ''admin''" by (simp add: root_def)
  have m: "map (\<lambda>v. if uid v = uid alice then alice\<lparr>active := False\<rparr> else v) [root, alice]
             = [root, alice\<lparr>active := False\<rparr>]"
    by (simp add: root_def alice_def)
  have pr: "params_userId ?req = 1" by (simp add: bearer_def)
  note t = delete_user_deactivates [OF f h, where now = 1000 and e = example_env and j = 3
        and a = root and token = "generateToken example_env 900 3 ''access''"]
  have hd: "delete_user_handler 1000 [root, alice] ?req
     = (respond 200 (MessageJson ''User deactivated successfully''), [root, alice\<lparr>active := False\<rparr>])"
    using t m by simp
  have fb: "findById [root, alice\<lparr>active := False\<rparr>] 1 = Some (alice\<lparr>active := False\<rparr>)"
    using hd pr t by simp
  have fo: "findById [root, alice\<lparr>active := False\<rparr>] 3 = findById [root, alice] 3"
    using hd pr t by simp
  have du: "delete_user example_env [root, alice] 1000 ?req = delete_user_handler 1000 [root, alice] ?req"
    using a r t by simp
  from hd fb fo du show ?thesis by simp
qed

text \<open>
  C8 as stated fails on the other handler of the same path: an admin's request removes
  Alice's record, and her identifier resolves to nothing afterwards.
\<close>

theorem delete_user_part_002_removes:
  "findById [root, alice] 1 = Some alice
   \<and> auth example_env [root, alice] 1000 (Some (Bearer (Some (generateToken example_env 900 3 ''access''))))
       = Inr (root, generateToken example_env 900 3 ''access'')
   \<and> delete_user_handler_part_002 [root, alice] (bearer (generateToken example_env 900 3 ''access'') [] 1)
       = (respond 200 (MessageJson ''User deleted successfully''), [root])
   \<and> delete_user_part_002 example_env [root, alice] 1000 (bearer (generateToken example_env 900 3 ''access'') [] 1)
       = (respond 200 (MessageJson ''User deleted successfully''), [root])
   \<and> findById [root] 1 = None"
  by (simp add: delete_user_part_002_def delete_user_handler_part_002_def findByIdAndDelete_def
        findById_def auth_def auth_try_def checkRole_def bearer_def generateToken_def jwt_sign_def
        jwt_verify_def findOne_id_active_def changedPasswordAfter_def example_env_def root_def alice_def)

section \<open>The default admin\<close>

lemma weak_fixed_passwords: "\<not> passwordRegex ''vijay123'' \<and> \<not> passwordRegex ''admin123''"
  by (simp add: passwordRegex_def lookahead_def dot_c_def upper_c_def)

lemma connectDB_admin_exists:
  "findOne_role st ''admin'' = Some a \<Longrightarrow> connectDB retries now st = Some st"
  by (cases retries) (simp_all add: create_default_admin_def)

lemma connectDB_creates:
  assumes "findOne_role st ''admin'' = None" and "findOne_email st ''admin@test.ac.in'' = None"
  shows "connectDB retries now st =
           Some (st @ [\<lparr>uid = newObjectId st, name = ''Admin User'', email = ''admin@test.ac.in'',
                        password = Hashed ''admin123'', role = ''admin'', active = True,
                        passwordChangedAt = None\<rparr>])"
  using assms save_new_User [of st "''admin@test.ac.in''" now "''Admin User''" "''admin123''" "''admin''"]
  by (cases retries) (simp_all add: create_default_admin_def)

text \<open>
  C9, as the code and the store have it. \<open>create_admin\<close> takes any request and runs no
  middleware. When no identity has the role admin and no identity holds the fixed email,
  the request (and likewise the bootstrap, with its own fixed email) adds an active admin
  with the fixed name, email and password; neither fixed password passes
  \<open>passwordRegex\<close>. When an admin exists, the request is answered 400 and the store is
  unchanged, and the bootstrap leaves the store unchanged.
\<close>

theorem create_admin_unguarded:
  "(findOne_role st ''admin'' = None \<and> findOne_email st ''vijay@test.ac.in'' = None \<longrightarrow>
      create_admin now st req =
        (respond 201 (MessageUserJson ''Admin user created successfully''
           \<lparr>pu_id = newObjectId st, pu_name = ''Admin User'', pu_email = ''vijay@test.ac.in'',
            pu_role = ''admin''\<rparr>),
         st @ [\<lparr>uid = newObjectId st, name = ''Admin User'', email = ''vijay@test.ac.in'',
                password = Hashed ''vijay123'', role = ''admin'', active = True,
                passwordChangedAt = None\<rparr>]))
   \<and> (findOne_role st ''admin'' = None \<and> findOne_email st ''admin@test.ac.in'' = None \<longrightarrow>
      connectDB retries now st =
        Some (st @ [\<lparr>uid = newObjectId st, name = ''Admin User'', email = ''admin@test.ac.in'',
                     password = Hashed ''admin123'', role = ''admin'', active = True,
                     passwordChangedAt = None\<rparr>]))
   \<and> \<not> passwordRegex ''vijay123'' \<and> \<not> passwordRegex ''admin123''
   \<and> (findOne_role st ''admin'' = Some a \<longrightarrow>
         create_admin now st req = (respond 400 (ErrorJson ''Admin user already exists''), st)
         \<and> connectDB retries now st = Some st)"
proof -
  have c: "findOne_role st ''admin'' = None \<and> findOne_email st ''vijay@test.ac.in'' = None \<longrightarrow>
      create_admin now st req =
        (respond 201 (MessageUserJson ''Admin user created successfully''
           \<lparr>pu_id = newObjectId st, pu_name = ''Admin User'', pu_email = ''vijay@test.ac.in'',
            pu_role = ''admin''\<rparr>),
         st @ [\<lparr>uid = newObjectId st, name = ''Admin User'', email = ''vijay@test.ac.in'',
                password = Hashed ''vijay123'', role = ''admin'', active = True,
                passwordChangedAt = None\<rparr>])"
    using save_new_User [of st "''vijay@test.ac.in''" now "''Admin User''" "''vijay123''" "''admin''"]
    by (simp add: create_admin_def publicOf_def)
  have b: "findOne_role st ''admin'' = None \<and> findOne_email st ''admin@test.ac.in'' = None \<longrightarrow>
      connectDB retries now st =
        Some (st @ [\<lparr>uid = newObjectId st, name = ''Admin User'', email = ''admin@test.ac.in'',
                     password = Hashed ''admin123'', role = ''admin'', active = True,
                     passwordChangedAt = None\<rparr>])"
    using connectDB_creates [of st retries now] by blast
  have x: "findOne_role st ''admin'' = Some a \<longrightarrow>
         create_admin now st req = (respond 400 (ErrorJson ''Admin user already exists''), st)
         \<and> connectDB retries now st = Some st"
    using connectDB_admin_exists [of st a retries now] by (simp add: create_admin_def)
  from c b x weak_fixed_passwords show ?thesis by blast
qed

theorem create_admin_unguarded_witness:
  "create_admin 1000 [alice] \<lparr>authorization = None, cookies = None, body = [], params_userId = 0\<rparr>
     = (respond 201 (MessageUserJson ''Admin user created successfully''
           \<lparr>pu_id = 2, pu_name = ''Admin User'', pu_email = ''vijay@test.ac.in'', pu_role = ''admin''\<rparr>),
        [alice, \<lparr>uid = 2, name = ''Admin User'', email = ''vijay@test.ac.in'',
                password = Hashed ''vijay123'', role = ''admin'', active = True,
                passwordChangedAt = None\<rparr>])
   \<and> connectDB 5 1000 [alice]
     = Some [alice, \<lparr>uid = 2, name = ''Admin User'', email = ''admin@test.ac.in'',
                password = Hashed ''admin123'', role = ''admin'', active = True,
                passwordChangedAt = None\<rparr>]
   \<and> create_admin 1000 [alice, root] \<lparr>authorization = None, cookies = None, body = [], params_userId = 0\<rparr>
     = (respond 400 (ErrorJson ''Admin user already exists''), [alice, root])
   \<and> connectDB 5 1000 [alice, root] = Some [alice, root]"
proof -
  have n: "findOne_role [alice] ''admin'' = None \<and> findOne_email [alice] ''vijay@test.ac.in'' = None
         \<and> findOne_email [alice] ''admin@test.ac.in'' = None"
    by (simp add: findOne_role_def findOne_email_def alice_def)
  have i: "newObjectId [alice] = 2"
    by (simp add: newObjectId_def alice_def)
  have x: "findOne_role [alice, root] ''admin'' = Some root"
    by (simp add: findOne_role_def alice_def root_def)
  show ?thesis
    using n i x
      create_admin_unguarded [where st = "[alice]" and now = 1000 and retries = 5
        and req = "\<lparr>authorization = None, cookies = None, body = [], params_userId = 0\<rparr>"]
      create_admin_unguarded [where st = "[alice, root]" and now = 1000 and retries = 5 and a = root
        and req = "\<lparr>authorization = None, cookies = None, body = [], params_userId = 0\<rparr>"]
    by simp
qed

text \<open>
  C9 as stated fails: no admin exists, but an identity already holds the fixed email, so
  the store refuses the new document; the request is answered 400 and there is still no
  admin.
\<close>

theorem create_admin_email_taken:
  "findOne_role [alice\<lparr>email := ''vijay@test.ac.in''\<rparr>] ''admin'' = None
   \<and> create_admin 1000 [alice\<lparr>email := ''vijay@test.ac.in''\<rparr>]
        \<lparr>authorization = None, cookies = None, body = [], params_userId = 0\<rparr>
       = (respond 400 (ErrorJson ''E11000 duplicate key error''), [alice\<lparr>email := ''vijay@test.ac.in''\<rparr>])
   \<and> findOne_role (snd (create_admin 1000 [alice\<lparr>email := ''vijay@test.ac.in''\<rparr>]
        \<lparr>authorization = None, cookies = None, body = [], params_userId = 0\<rparr>)) ''admin'' = None"
  by (simp add: create_admin_def findOne_role_def save_def findById_def findOne_email_def new_User_def
        newObjectId_def alice_def)

section \<open>Updates and the strength of a password\<close>

lemma set_path_cases:
  "set_path u k v = Inl m \<Longrightarrow> k = ''active'' \<and> castBoolean v = None"
  by (auto simp: set_path_def split: if_splits option.splits)

lemma set_path_fields:
  assumes "set_path u k v = Inr u'"
  shows "uid u' = uid u
       \<and> password u' = (if k = ''password'' then Plain (toString v) else password u)
       \<and> email u' = (if k = ''email'' then toString v else email u)"
  using assms by (auto simp: set_path_def split: if_splits option.splits)

lemma forEach_update_succeeds:
  "\<forall>v. (''active'', v) \<in> set b \<longrightarrow> castBoolean v \<noteq> None \<Longrightarrow> \<exists>u'. forEach_update u b = Inr u'"
proof (induction b arbitrary: u)
  case Nil
  then show ?case by simp
next
  case (Cons kv rest)
  obtain k v where kv: "kv = (k, v)" by (cases kv)
  show ?case
  proof (cases "set_path u k v")
    case (Inl m)
    then have "k = ''active'' \<and> castBoolean v = None" by (rule set_path_cases)
    with Cons.prems kv show ?thesis by auto
  next
    case (Inr u1)
    have "\<exists>u'. forEach_update u1 rest = Inr u'"
      using Cons.IH Cons.prems by auto
    with Inr kv show ?thesis by simp
  qed
qed

lemma forEach_update_fields:
  "forEach_update u b = Inr u' \<Longrightarrow> distinct (map fst b) \<Longrightarrow>
     uid u' = uid u
     \<and> password u' = (case map_of b ''password'' of None \<Rightarrow> password u | Some v \<Rightarrow> Plain (toString v))
     \<and> email u' = (case map_of b ''email'' of None \<Rightarrow> email u | Some v \<Rightarrow> toString v)"
proof (induction b arbitrary: u)
  case Nil
  then show ?case by simp
next
  case (Cons kv rest)
  obtain k v where kv: "kv = (k, v)" by (cases kv)
  from Cons.prems(1) kv obtain u1 where
    s: "set_path u k v = Inr u1" and r: "forEach_update u1 rest = Inr u'"
    by (auto split: sum.splits)
  from Cons.prems(2) kv have d: "distinct (map fst rest)" and nk: "k \<notin> fst ` set rest" by auto
  from nk have none: "map_of rest k = None" by (simp add: map_of_eq_None_iff)
  note ih = Cons.IH [OF r d]
  note f = set_path_fields [OF s]
  show ?case
    using ih f none kv by (auto split: option.splits)
qed

lemma update_and_save:
  assumes old: "findById st i = Some old"
    and keys: "distinct (map fst b)"
    and pw: "map_of b ''password'' = Some (JStr p)"
    and em: "\<forall>v. map_of b ''email'' = Some v \<longrightarrow> findOne_email st (toString v) = None"
    and act: "\<forall>v. (''active'', v) \<in> set b \<longrightarrow> castBoolean v \<noteq> None"
  shows "\<exists>u' saved st'. forEach_update old b = Inr u' \<and> save now st u' = Inr (saved, st')
           \<and> findById st' i = Some saved \<and> password saved = Hashed p"
proof -
  from act obtain u' where fe: "forEach_update old b = Inr u'"
    using forEach_update_succeeds [of b old] by blast
  note f = forEach_update_fields [OF fe keys]
  from old have io: "uid old = i" by (simp add: findById_Some)
  from f io have id: "uid u' = i" by simp
  from f pw have p: "password u' = Plain p" by simp
  have e: "email u' = email old \<or> findOne_email st (email u') = None"
    using f em by (cases "map_of b ''email''") auto
  let ?s = "pre_save now False u'"
  have sv: "save now st u' = Inr (?s, map (\<lambda>v. if uid v = uid u' then ?s else v) st)"
    using save_stored [of st u' old now] old id e by simp
  have "uid ?s = i" using id by (simp add: uid_pre_save)
  then have fb: "findById (map (\<lambda>v. if uid v = uid u' then ?s else v) st) i = Some ?s"
    using findById_replace [of st i old ?s] old id by simp
  have "password ?s = Hashed p" using p by (simp add: pre_save_def)
  with fe sv fb show ?thesis by blast
qed

lemma set_path_same_public:
  assumes "same_public u1 u2" and "k = ''password'' \<or> v1 = v2"
  shows "rel_sum (=) same_public (set_path u1 k v1) (set_path u2 k v2)"
  using assms by (auto simp: set_path_def same_public_def split: option.splits)

lemma forEach_update_same_public:
  "list_all2 same_but_password b1 b2 \<Longrightarrow> same_public u1 u2 \<Longrightarrow>
     rel_sum (=) same_public (forEach_update u1 b1) (forEach_update u2 b2)"
proof (induction b1 b2 arbitrary: u1 u2 rule: list_all2_induct)
  case Nil
  then show ?case by simp
next
  case (Cons kv1 b1 kv2 b2)
  obtain k v1 where kv1: "kv1 = (k, v1)" by (cases kv1)
  obtain k2 v2 where kv2: "kv2 = (k2, v2)" by (cases kv2)
  from Cons.hyps(1) kv1 kv2 have k: "k2 = k" and v: "k = ''password'' \<or> v1 = v2"
    by (auto simp: same_but_password_def)
  have r: "rel_sum (=) same_public (set_path u1 k v1) (set_path u2 k v2)"
    using Cons.prems v by (rule set_path_same_public)
  show ?case
  proof (cases "set_path u1 k v1")
    case (Inl m)
    with r have "set_path u2 k v2 = Inl m" by (cases "set_path u2 k v2") auto
    with Inl kv1 kv2 k show ?thesis by simp
  next
    case (Inr a1)
    with r obtain a2 where a2: "set_path u2 k v2 = Inr a2" and s: "same_public a1 a2"
      by (cases "set_path u2 k v2") auto
    from Cons.IH [OF s] Inr a2 kv1 kv2 k show ?thesis by simp
  qed
qed

lemma same_public_pre_save:
  "same_public u1 u2 \<Longrightarrow> same_public (pre_save now n1 u1) (pre_save now n2 u2)"
  by (auto simp: same_public_def pre_save_def split: pw.splits)

lemma save_same_public:
  assumes "same_public u1 u2"
  shows "rel_sum (=) (\<lambda>r1 r2. same_public (fst r1) (fst r2)) (save now st u1) (save now st u2)"
proof -
  from assms have i: "uid u2 = uid u1" and e: "email u2 = email u1"
    by (simp_all add: same_public_def)
  show ?thesis
    using same_public_pre_save [OF assms, of now]
    by (auto simp: save_def i e split: option.splits)
qed

lemma same_keys: "list_all2 same_but_password b1 b2 \<Longrightarrow> map fst b1 = map fst b2"
  by (induction b1 b2 rule: list_all2_induct) (auto simp: same_but_password_def)

lemma same_public_refl: "same_public u u"
  by (simp add: same_public_def)

lemma patch_me_handler_same_response:
  assumes "list_all2 same_but_password (body r1) (body r2)"
  shows "fst (patch_me_handler now st u r1) = fst (patch_me_handler now st u r2)"
proof -
  note k = same_keys [OF assms]
  show ?thesis
  proof (cases "findById st (uid u)")
    case None
    then show ?thesis by (simp add: patch_me_handler_def k)
  next
    case (Some old)
    note f = forEach_update_same_public [OF assms same_public_refl [of old]]
    show ?thesis
    proof (cases "forEach_update old (body r1)")
      case (Inl m)
      with f have "forEach_update old (body r2) = Inl m"
        by (cases "forEach_update old (body r2)") auto
      with Inl Some show ?thesis by (simp add: patch_me_handler_def k)
    next
      case (Inr a1)
      with f obtain a2 where a2: "forEach_update old (body r2) = Inr a2" and s: "same_public a1 a2"
        by (cases "forEach_update old (body r2)") auto
      note sv = save_same_public [OF s, of now st]
      show ?thesis
      proof (cases "save now st a1")
        case (Inl m)
        with sv have "save now st a2 = Inl m" by (cases "save now st a2") auto
        with Inl Inr a2 Some show ?thesis by (simp add: patch_me_handler_def k)
      next
        case (Inr r)
        with sv obtain r' where r': "save now st a2 = Inr r'" and p: "same_public (fst r) (fst r')"
          by (cases "save now st a2") auto
        from p have "publicOf (fst r) = publicOf (fst r')"
          by (simp add: publicOf_def same_public_def)
        with Inr r' \<open>forEach_update old (body r1) = Inr a1\<close> a2 Some show ?thesis
          by (auto simp: patch_me_handler_def k split: prod.splits)
      qed
    qed
  qed
qed

lemma patch_user_handler_same_response:
  assumes "list_all2 same_but_password (body r1) (body r2)" and "params_userId r1 = params_userId r2"
  shows "fst (patch_user_handler now st r1) = fst (patch_user_handler now st r2)"
proof -
  note k = same_keys [OF assms(1)]
  show ?thesis
  proof (cases "findById st (params_userId r2)")
    case None
    then show ?thesis by (simp add: patch_user_handler_def k assms(2))
  next
    case (Some old)
    note f = forEach_update_same_public [OF assms(1) same_public_refl [of old]]
    show ?thesis
    proof (cases "forEach_update old (body r1)")
      case (Inl m)
      with f have "forEach_update old (body r2) = Inl m"
        by (cases "forEach_update old (body r2)") auto
      with Inl Some show ?thesis by (simp add: patch_user_handler_def k assms(2))
    next
      case (Inr a1)
      with f obtain a2 where a2: "forEach_update old (body r2) = Inr a2" and s: "same_public a1 a2"
        by (cases "forEach_update old (body r2)") auto
      note sv = save_same_public [OF s, of now st]
      show ?thesis
      proof (cases "save now st a1")
        case (Inl m)
        with sv have "save now st a2 = Inl m" by (cases "save now st a2") auto
        with Inl Inr a2 Some show ?thesis by (simp add: patch_user_handler_def k assms(2))
      next
        case (Inr r)
        with sv obtain r' where r': "save now st a2 = Inr r'" and p: "same_public (fst r) (fst r')"
          by (cases "save now st a2") auto
        from p have "publicOf (fst r) = publicOf (fst r') \<and> active (fst r) = active (fst r')"
          by (simp add: publicOf_def same_public_def)
        with Inr r' \<open>forEach_update old (body r1) = Inr a1\<close> a2 Some show ?thesis
          by (auto simp: patch_user_handler_def k assms(2) split: prod.splits)
      qed
    qed
  qed
qed

lemma patch_routes_same_response:
  assumes "list_all2 same_but_password (body r1) (body r2)"
    and "params_userId r1 = params_userId r2" and "authorization r1 = authorization r2"
  shows "fst (patch_me e st now r1) = fst (patch_me e st now r2)
       \<and> fst (patch_user e st now r1) = fst (patch_user e st now r2)"
  using patch_me_handler_same_response [OF assms(1)]
    patch_user_handler_same_response [OF assms(1) assms(2)]
  by (auto simp: patch_me_def patch_user_def assms(3) split: sum.splits option.splits)

text \<open>
  C10. Neither update handler tests the password. For a body with distinct keys that
  assigns the password \<open>p\<close>, whatever \<open>p\<close> is, and no email that an identity holds:
  when the keys are in the allow-list of \<open>PATCH /me\<close>, an authenticated caller is
  answered 200 and the digest of \<open>p\<close> is stored for that caller; when the keys are in the
  allow-list of \<open>PATCH /users/:userId\<close>, the identifier resolves and a value for
  \<open>active\<close> is a boolean (or reads as one), an authenticated admin is answered 200 and
  the digest of \<open>p\<close> is stored for the identity addressed. And two requests to either
  route that differ only in the value of \<open>password\<close> get the same response.
\<close>

theorem updates_skip_password_strength:
  assumes keys: "distinct (map fst (body req))"
    and pw: "map_of (body req) ''password'' = Some (JStr p)"
    and em: "\<forall>v. map_of (body req) ''email'' = Some v \<longrightarrow> findOne_email st (toString v) = None"
  shows "(auth e st now (authorization req) = Inr (u, token)
            \<and> isValidOperation [''name'', ''email'', ''password''] (map fst (body req)) \<longrightarrow>
            status (fst (patch_me e st now req)) = 200
            \<and> map_option password (findById (snd (patch_me e st now req)) (uid u)) = Some (Hashed p))
       \<and> (auth e st now (authorization req) = Inr (a, token') \<and> role a = ''admin''
            \<and> isValidOperation [''name'', ''email'', ''password'', ''role'', ''active''] (map fst (body req))
            \<and> findById st (params_userId req) = Some target
            \<and> (\<forall>v. map_of (body req) ''active'' = Some v \<longrightarrow> castBoolean v \<noteq> None) \<longrightarrow>
            status (fst (patch_user e st now req)) = 200
            \<and> map_option password (findById (snd (patch_user e st now req)) (params_userId req))
                = Some (Hashed p))
       \<and> (list_all2 same_but_password (body req) (body req') \<and> params_userId req = params_userId req'
            \<and> authorization req = authorization req' \<longrightarrow>
            fst (patch_me e st now req) = fst (patch_me e st now req')
            \<and> fst (patch_user e st now req) = fst (patch_user e st now req'))"
proof -
  have me: "auth e st now (authorization req) = Inr (u, token)
            \<and> isValidOperation [''name'', ''email'', ''password''] (map fst (body req)) \<longrightarrow>
            status (fst (patch_me e st now req)) = 200
            \<and> map_option password (findById (snd (patch_me e st now req)) (uid u)) = Some (Hashed p)"
  proof
    assume a: "auth e st now (authorization req) = Inr (u, token)
            \<and> isValidOperation [''name'', ''email'', ''password''] (map fst (body req))"
    then have "u \<in> set st" using auth_user_active [of e st now "authorization req" u token] by simp
    then obtain old where old: "findById st (uid u) = Some old"
      using findById_exists by blast
    have act: "\<forall>v. (''active'', v) \<in> set (body req) \<longrightarrow> castBoolean v \<noteq> None"
    proof (intro allI impI)
      fix v assume "(''active'', v) \<in> set (body req)"
      then have "''active'' \<in> set (map fst (body req))" by force
      with a have "''active'' \<in> set [''name'', ''email'', ''password'']"
        using isValidOperation_member by blast
      then show "castBoolean v \<noteq> None" by simp
    qed
    from update_and_save [OF old keys pw em act, of now]
    obtain u' saved st' where "forEach_update old (body req) = Inr u'"
      and "save now st u' = Inr (saved, st')"
      and "findById st' (uid u) = Some saved" and "password saved = Hashed p" by blast
    with a old show "status (fst (patch_me e st now req)) = 200
            \<and> map_option password (findById (snd (patch_me e st now req)) (uid u)) = Some (Hashed p)"
      by (simp add: patch_me_def patch_me_handler_def respond_def)
  qed
  have admin: "auth e st now (authorization req) = Inr (a, token') \<and> role a = ''admin''
            \<and> isValidOperation [''name'', ''email'', ''password'', ''role'', ''active''] (map fst (body req))
            \<and> findById st (params_userId req) = Some target
            \<and> (\<forall>v. map_of (body req) ''active'' = Some v \<longrightarrow> castBoolean v \<noteq> None) \<longrightarrow>
            status (fst (patch_user e st now req)) = 200
            \<and> map_option password (findById (snd (patch_user e st now req)) (params_userId req))
                = Some (Hashed p)"
  proof
    assume h: "auth e st now (authorization req) = Inr (a, token') \<and> role a = ''admin''
            \<and> isValidOperation [''name'', ''email'', ''password'', ''role'', ''active''] (map fst (body req))
            \<and> findById st (params_userId req) = Some target
            \<and> (\<forall>v. map_of (body req) ''active'' = Some v \<longrightarrow> castBoolean v \<noteq> None)"
    then have old: "findById st (params_userId req) = Some target" by simp
    have act: "\<forall>v. (''active'', v) \<in> set (body req) \<longrightarrow> castBoolean v \<noteq> None"
      using h keys by auto
    from update_and_save [OF old keys pw em act, of now]
    obtain u' saved st' where "forEach_update target (body req) = Inr u'"
      and "save now st u' = Inr (saved, st')"
      and "findById st' (params_userId req) = Some saved" and "password saved = Hashed p" by blast
    with h show "status (fst (patch_user e st now req)) = 200
            \<and> map_option password (findById (snd (patch_user e st now req)) (params_userId req))
                = Some (Hashed p)"
      by (simp add: patch_user_def patch_user_handler_def checkRole_def respond_def)
  qed
  have same: "list_all2 same_but_password (body req) (body req') \<and> params_userId req = params_userId req'
            \<and> authorization req = authorization req' \<longrightarrow>
            fst (patch_me e st now req) = fst (patch_me e st now req')
            \<and> fst (patch_user e st now req) = fst (patch_user e st now req')"
    using patch_routes_same_response [of req req' e st now] by blast
  from me admin same show ?thesis by blast
qed

theorem updates_skip_password_strength_witness:
  "\<not> passwordRegex ''a''
   \<and> status (fst (patch_me example_env [root, alice] 1000
        (bearer (generateToken example_env 900 1 ''access'') [(''password'', JStr ''a'')] 0))) = 200
   \<and> map_option password (findById (snd (patch_me example_env [root, alice] 1000
        (bearer (generateToken example_env 900 1 ''access'') [(''password'', JStr ''a'')] 0))) 1)
       = Some (Hashed ''a'')
   \<and> status (fst (patch_user example_env [root, alice] 1000
        (bearer (generateToken example_env 900 3 ''access'')
           [(''password'', JStr ''a''), (''active'', JBool True)] 1))) = 200
   \<and> map_option password (findById (snd (patch_user example_env [root, alice] 1000
        (bearer (generateToken example_env 900 3 ''access'')
           [(''password'', JStr ''a''), (''active'', JBool True)] 1))) 1)
       = Some (Hashed ''a'')
   \<and> fst (patch_me example_env [root, alice] 1000
        (bearer (generateToken example_env 900 1 ''access'') [(''password'', JStr ''a'')] 0))
     = fst (patch_me example_env [root, alice] 1000
        (bearer (generateToken example_env 900 1 ''access'') [(''password'', JStr ''Abcdef1!'')] 0))"
proof -
  let ?strong = "bearer (generateToken example_env 900 1 ''access'') [(''password'', JStr ''Abcdef1!'')] 0"
  let ?me = "bearer (generateToken example_env 900 1 ''access'') [(''password'', JStr ''a'')] 0"
  let ?ad = "bearer (generateToken example_env 900 3 ''access'')
               [(''password'', JStr ''a''), (''active'', JBool True)] 1"
  have weak: "\<not> passwordRegex ''a''" by (simp add: passwordRegex_def)
  have k1: "distinct (map fst (body ?me))" by (simp add: bearer_def)
  have p1: "map_of (body ?me) ''password'' = Some (JStr ''a'')" by (simp add: bearer_def)
  have e1: "\<forall>v. map_of (body ?me) ''email'' = Some v \<longrightarrow> findOne_email [root, alice] (toString v) = None"
    by (simp add: bearer_def)
  have a1: "auth example_env [root, alice] 1000 (authorization ?me)
              = Inr (alice, generateToken example_env 900 1 ''access'')"
    by (simp add: auth_def auth_try_def bearer_def generateToken_def jwt_sign_def jwt_verify_def
          findOne_id_active_def changedPasswordAfter_def example_env_def root_def alice_def)
  have v1: "isValidOperation [''name'', ''email'', ''password''] (map fst (body ?me))"
    by (simp add: isValidOperation_def bearer_def)
  have i1: "uid alice = 1" by (simp add: alice_def)
  have me: "status (fst (patch_me example_env [root, alice] 1000 ?me)) = 200
      \<and> map_option password (findById (snd (patch_me example_env [root, alice] 1000 ?me)) 1)
           = Some (Hashed ''a'')"
    using a1 v1 i1
      updates_skip_password_strength [OF k1 p1 e1, where e = example_env and now = 1000
        and u = alice and token = "generateToken example_env 900 1 ''access''"]
    by simp
  have d1: "list_all2 same_but_password (body ?me) (body ?strong) \<and> params_userId ?me = params_userId ?strong
      \<and> authorization ?me = authorization ?strong"
    by (simp add: bearer_def same_but_password_def)
  have same: "fst (patch_me example_env [root, alice] 1000 ?me)
      = fst (patch_me example_env [root, alice] 1000 ?strong)"
    using d1
      updates_skip_password_strength [OF k1 p1 e1, where e = example_env and now = 1000
        and req' = ?strong]
    by simp
  have k2: "distinct (map fst (body ?ad))" by (simp add: bearer_def)
  have p2: "map_of (body ?ad) ''password'' = Some (JStr ''a'')" by (simp add: bearer_def)
  have e2: "\<forall>v. map_of (body ?ad) ''email'' = Some v \<longrightarrow> findOne_email [root, alice] (toString v) = None"
    by (simp add: bearer_def)
  have a2: "auth example_env [root, alice] 1000 (authorization ?ad)
              = Inr (root, generateToken example_env 900 3 ''access'')"
    by (simp add: auth_def auth_try_def bearer_def generateToken_def jwt_sign_def jwt_verify_def
          findOne_id_active_def changedPasswordAfter_def example_env_def root_def)
  have r2: "role root = ''admin''" by (simp add: root_def)
  have v2: "isValidOperation [''name'', ''email'', ''password'', ''role'', ''active''] (map fst (body ?ad))"
    by (simp add: isValidOperation_def bearer_def)
  have f2: "findById [root, alice] (params_userId ?ad) = Some alice"
    by (simp add: findById_def bearer_def root_def alice_def)
  have c2: "\<forall>v. map_of (body ?ad) ''active'' = Some v \<longrightarrow> castBoolean v \<noteq> None"
    by (auto simp: bearer_def)
  have i2: "params_userId ?ad = 1" by (simp add: bearer_def)
  have ad: "status (fst (patch_user example_env [root, alice] 1000 ?ad)) = 200
      \<and> map_option password (findById (snd (patch_user example_env [root, alice] 1000 ?ad)) 1)
           = Some (Hashed ''a'')"
    using a2 r2 v2 f2 c2 i2
      updates_skip_password_strength [OF k2 p2 e2, where e = example_env and now = 1000
        and a = root and token' = "generateToken example_env 900 3 ''access''" and target = alice]
    by simp
  from weak me ad same show ?thesis by simp
qed

end
